theory Spec2Isabelle
  imports Main "HOL-Library.Word"
begin

section \<open>Errors\<close>

text \<open>
  Go's \<open>error\<close> values that the modelled code creates, tests or passes on. A \<open>nil\<close>
  error is \<open>None\<close> of \<open>error option\<close>; a function returning \<open>(T, error)\<close> returns
  \<open>error + T\<close>. \<open>Fault\<close> is any other error a collaborator (database driver, mailer,
  random source) hands back, with its text. \<open>HTTPError\<close> keeps the constructor used
  (\<open>badRequestError\<close>, \<open>notFoundError\<close>, \<open>unprocessableEntityError\<close>,
  \<open>internalServerError\<close>), the message as written in the source, and the error that is
  rendered into the message or attached with \<open>WithInternalError\<close>. \<open>Panic\<close> is a
  run-time panic (a nil pointer dereferenced).
\<close>

datatype http_kind = badRequestError | notFoundError | unprocessableEntityError | internalServerError

datatype error =
    ErrNoRows
  | FactorNotFoundError
  | UserNotFoundError
  | MaxFrequencyLimitError
  | Fault string
  | Wrap error string
  | HTTPError http_kind string "error option"
  | Panic string

text \<open>\<open>errors.Cause\<close>: the innermost error under the wrappers.\<close>

fun Cause :: "error \<Rightarrow> error" where
  "Cause (Wrap e m) = Cause e"
| "Cause e = e"

text \<open>\<open>errors.Wrap(err, msg)\<close> is \<open>nil\<close> when \<open>err\<close> is \<open>nil\<close>.\<close>

definition errors_Wrap :: "error option \<Rightarrow> string \<Rightarrow> error option" where
  "errors_Wrap err m = (case err of None \<Rightarrow> None | Some e \<Rightarrow> Some (Wrap e m))"

section \<open>Time\<close>

text \<open>
  A \<open>time.Time\<close> is an instant on a line of nanoseconds and a \<open>time.Duration\<close> a signed
  number of nanoseconds; no operation of the modelled code multiplies or subtracts them,
  so they are unbounded integers here.
\<close>

type_synonym Time = int
type_synonym Duration = int

definition Add :: "Time \<Rightarrow> Duration \<Rightarrow> Time" where
  "Add t d = t + d"

definition Before :: "Time \<Rightarrow> Time \<Rightarrow> bool" where
  "Before t u = (t < u)"

text \<open>
  The test that opens \<open>sendConfirmation\<close>, \<open>sendPasswordRecovery\<close>,
  \<open>sendReauthenticationOtp\<close> and \<open>sendMagicLink\<close>:
  \<^verbatim>\<open>sentAt != nil && !sentAt.Add(maxFrequency).Before(time.Now())\<close>.
\<close>

definition frequency_limit_reached :: "Time option \<Rightarrow> Duration \<Rightarrow> Time \<Rightarrow> bool" where
  "frequency_limit_reached sentAt maxFrequency now =
     (case sentAt of None \<Rightarrow> False | Some t \<Rightarrow> \<not> Before (Add t maxFrequency) now)"

section \<open>Token derivation\<close>

text \<open>
  \<^verbatim>\<open>fmt.Sprintf("%x", sha256.Sum224([]byte(email+otp)))\<close>. \<open>sha256.Sum224\<close> belongs to
  Go's library and returns a \<open>[28]byte\<close>: it is a parameter of the model, of a type whose
  values are exactly the byte lists of length 28. The verb \<open>%x\<close> renders each byte of an
  array as two lowercase hexadecimal digits, high nibble first.
\<close>

typedef digest224 = "{bs :: 8 word list. length bs = 28}"
  by (rule exI [of _ "replicate 28 0"]) simp

definition hex_digit :: "nat \<Rightarrow> char" where
  "hex_digit n = ''0123456789abcdef'' ! n"

definition hex_byte :: "8 word \<Rightarrow> string" where
  "hex_byte b = [hex_digit (unat b div 16), hex_digit (unat b mod 16)]"

definition Sprintf_x :: "8 word list \<Rightarrow> string" where
  "Sprintf_x bs = concat (map hex_byte bs)"

definition hashed_token :: "(string \<Rightarrow> digest224) \<Rightarrow> string \<Rightarrow> string \<Rightarrow> string" where
  "hashed_token Sum224 identifier otp = Sprintf_x (Rep_digest224 (Sum224 (identifier @ otp)))"

section \<open>Users and their persisted rows\<close>

type_synonym uuid = "128 word"

record User =
  user_ID :: uuid
  Aud :: string
  Email :: string
  ConfirmationToken :: string
  ConfirmationSentAt :: "Time option"
  InvitedAt :: "Time option"
  RecoveryToken :: string
  RecoverySentAt :: "Time option"
  ReauthenticationToken :: string
  ReauthenticationSentAt :: "Time option"
  EmailChange :: string
  EmailChangeTokenCurrent :: string
  EmailChangeTokenNew :: string
  EmailChangeSentAt :: "Time option"
  EmailChangeConfirmStatus :: int
  UserMetaData :: string
  Identities :: "string list"

text \<open>
  Modelled from the spec: \<open>GetEmail\<close> (its source is not at hand) reads the account's
  current email, the identifier the token is derived from.
\<close>

definition GetEmail :: "User \<Rightarrow> string" where
  "GetEmail u = Email u"

text \<open>
  Modelled from the spec: \<open>zeroConfirmation\<close> (its declaration is not at hand) is the
  confirm status "reset to zero".
\<close>

definition zeroConfirmation :: int where
  "zeroConfirmation = 0"

text \<open>The column names handed to \<open>tx.UpdateOnly\<close>.\<close>

datatype user_column =
    confirmation_token | confirmation_sent_at | invited_at
  | recovery_token | recovery_sent_at
  | reauthentication_token | reauthentication_sent_at
  | email_change_token_current | email_change_token_new | email_change
  | email_change_sent_at | email_change_confirm_status

fun write_column :: "User \<Rightarrow> user_column \<Rightarrow> User \<Rightarrow> User" where
  "write_column u confirmation_token r = r\<lparr>ConfirmationToken := ConfirmationToken u\<rparr>"
| "write_column u confirmation_sent_at r = r\<lparr>ConfirmationSentAt := ConfirmationSentAt u\<rparr>"
| "write_column u invited_at r = r\<lparr>InvitedAt := InvitedAt u\<rparr>"
| "write_column u recovery_token r = r\<lparr>RecoveryToken := RecoveryToken u\<rparr>"
| "write_column u recovery_sent_at r = r\<lparr>RecoverySentAt := RecoverySentAt u\<rparr>"
| "write_column u reauthentication_token r = r\<lparr>ReauthenticationToken := ReauthenticationToken u\<rparr>"
| "write_column u reauthentication_sent_at r = r\<lparr>ReauthenticationSentAt := ReauthenticationSentAt u\<rparr>"
| "write_column u email_change_token_current r = r\<lparr>EmailChangeTokenCurrent := EmailChangeTokenCurrent u\<rparr>"
| "write_column u email_change_token_new r = r\<lparr>EmailChangeTokenNew := EmailChangeTokenNew u\<rparr>"
| "write_column u email_change r = r\<lparr>EmailChange := EmailChange u\<rparr>"
| "write_column u email_change_sent_at r = r\<lparr>EmailChangeSentAt := EmailChangeSentAt u\<rparr>"
| "write_column u email_change_confirm_status r = r\<lparr>EmailChangeConfirmStatus := EmailChangeConfirmStatus u\<rparr>"

text \<open>
  \<open>tx.UpdateOnly(u, cols...)\<close>: the statement fails with the driver's error and writes
  nothing, or writes the named columns of \<open>u\<close> into the row that has \<open>u\<close>'s id.
\<close>

definition UpdateOnly :: "error option \<Rightarrow> User \<Rightarrow> user_column list \<Rightarrow> User list \<Rightarrow> error option \<times> User list" where
  "UpdateOnly fault u cols rows =
     (case fault of
        Some e \<Rightarrow> (Some e, rows)
      | None \<Rightarrow> (None, map (\<lambda>r. if user_ID r = user_ID u then fold (write_column u) cols r else r) rows))"

section \<open>The mail flows\<close>

text \<open>The calls made to the \<open>mailer.Mailer\<close>, with the user as it is at the call.\<close>

datatype mail =
    ConfirmationMail User string string
  | InviteMail User string string
  | RecoveryMail User string string
  | ReauthenticateMail User string
  | MagicLinkMail User string string
  | EmailChangeMail User string string string

text \<open>
  The collaborators of one call: the digest, \<open>crypto.GenerateOtp\<close> (given the number of
  codes drawn so far and the length asked for), the successive readings of \<open>time.Now()\<close>
  within the call, the mailer and the outcome of the update statement.
\<close>

record collab =
  Sum224 :: "string \<Rightarrow> digest224"
  GenerateOtp :: "nat \<Rightarrow> int \<Rightarrow> error + string"
  Now :: "nat \<Rightarrow> Time"
  Mailer :: "mail \<Rightarrow> error option"
  UpdateOnly_fault :: "error option"

text \<open>
  What a call can change: the rows behind \<open>tx\<close>, the \<open>*models.User\<close> it was given, the
  mails handed to the mailer and the number of codes drawn.
\<close>

record world =
  rows :: "User list"
  usr :: User
  outbox :: "mail list"
  draws :: nat

definition sendConfirmation :: "collab \<Rightarrow> Duration \<Rightarrow> string \<Rightarrow> int \<Rightarrow> world \<Rightarrow> error option \<times> world" where
  "sendConfirmation c maxFrequency referrerURL otpLength w =
     (if frequency_limit_reached (ConfirmationSentAt (usr w)) maxFrequency (Now c 0)
      then (Some MaxFrequencyLimitError, w)
      else
        let oldToken = ConfirmationToken (usr w) in
        case GenerateOtp c (draws w) otpLength of
          Inl err \<Rightarrow> (Some err, w\<lparr>draws := Suc (draws w)\<rparr>)
        | Inr otp \<Rightarrow>
            let u1 = (usr w)\<lparr>ConfirmationToken := hashed_token (Sum224 c) (GetEmail (usr w)) otp\<rparr>;
                now = Now c 1;
                m = ConfirmationMail u1 otp referrerURL
            in (case Mailer c m of
                 Some err \<Rightarrow>
                   (Some (Wrap err ''Error sending confirmation email''),
                    w\<lparr>usr := u1\<lparr>ConfirmationToken := oldToken\<rparr>, outbox := outbox w @ [m], draws := Suc (draws w)\<rparr>)
               | None \<Rightarrow>
                   let u2 = u1\<lparr>ConfirmationSentAt := Some now\<rparr>;
                       (err, rows') = UpdateOnly (UpdateOnly_fault c) u2 [confirmation_token, confirmation_sent_at] (rows w)
                   in (errors_Wrap err ''Database error updating user for confirmation'',
                       \<lparr>rows = rows', usr = u2, outbox = outbox w @ [m], draws = Suc (draws w)\<rparr>)))"

definition sendInvite :: "collab \<Rightarrow> string \<Rightarrow> int \<Rightarrow> world \<Rightarrow> error option \<times> world" where
  "sendInvite c referrerURL otpLength w =
     (let oldToken = ConfirmationToken (usr w) in
      case GenerateOtp c (draws w) otpLength of
        Inl err \<Rightarrow> (Some err, w\<lparr>draws := Suc (draws w)\<rparr>)
      | Inr otp \<Rightarrow>
          let u1 = (usr w)\<lparr>ConfirmationToken := hashed_token (Sum224 c) (GetEmail (usr w)) otp\<rparr>;
              now = Now c 0;
              m = InviteMail u1 otp referrerURL
          in (case Mailer c m of
               Some err \<Rightarrow>
                 (Some (Wrap err ''Error sending invite email''),
                  w\<lparr>usr := u1\<lparr>ConfirmationToken := oldToken\<rparr>, outbox := outbox w @ [m], draws := Suc (draws w)\<rparr>)
             | None \<Rightarrow>
                 let u2 = u1\<lparr>InvitedAt := Some now, ConfirmationSentAt := Some now\<rparr>;
                     (err, rows') = UpdateOnly (UpdateOnly_fault c) u2 [confirmation_token, confirmation_sent_at, invited_at] (rows w)
                 in (errors_Wrap err ''Database error updating user for invite'',
                     \<lparr>rows = rows', usr = u2, outbox = outbox w @ [m], draws = Suc (draws w)\<rparr>)))"

definition sendPasswordRecovery :: "collab \<Rightarrow> Duration \<Rightarrow> string \<Rightarrow> int \<Rightarrow> world \<Rightarrow> error option \<times> world" where
  "sendPasswordRecovery c maxFrequency referrerURL otpLength w =
     (if frequency_limit_reached (RecoverySentAt (usr w)) maxFrequency (Now c 0)
      then (Some MaxFrequencyLimitError, w)
      else
        let oldToken = RecoveryToken (usr w) in
        case GenerateOtp c (draws w) otpLength of
          Inl err \<Rightarrow> (Some err, w\<lparr>draws := Suc (draws w)\<rparr>)
        | Inr otp \<Rightarrow>
            let u1 = (usr w)\<lparr>RecoveryToken := hashed_token (Sum224 c) (GetEmail (usr w)) otp\<rparr>;
                now = Now c 1;
                m = RecoveryMail u1 otp referrerURL
            in (case Mailer c m of
                 Some err \<Rightarrow>
                   (Some (Wrap err ''Error sending recovery email''),
                    w\<lparr>usr := u1\<lparr>RecoveryToken := oldToken\<rparr>, outbox := outbox w @ [m], draws := Suc (draws w)\<rparr>)
               | None \<Rightarrow>
                   let u2 = u1\<lparr>RecoverySentAt := Some now\<rparr>;
                       (err, rows') = UpdateOnly (UpdateOnly_fault c) u2 [recovery_token, recovery_sent_at] (rows w)
                   in (errors_Wrap err ''Database error updating user for recovery'',
                       \<lparr>rows = rows', usr = u2, outbox = outbox w @ [m], draws = Suc (draws w)\<rparr>)))"

definition sendReauthenticationOtp :: "collab \<Rightarrow> Duration \<Rightarrow> int \<Rightarrow> world \<Rightarrow> error option \<times> world" where
  "sendReauthenticationOtp c maxFrequency otpLength w =
     (if frequency_limit_reached (ReauthenticationSentAt (usr w)) maxFrequency (Now c 0)
      then (Some MaxFrequencyLimitError, w)
      else
        let oldToken = ReauthenticationToken (usr w) in
        case GenerateOtp c (draws w) otpLength of
          Inl err \<Rightarrow> (Some err, w\<lparr>draws := Suc (draws w)\<rparr>)
        | Inr otp \<Rightarrow>
            let u1 = (usr w)\<lparr>ReauthenticationToken := hashed_token (Sum224 c) (GetEmail (usr w)) otp\<rparr>;
                now = Now c 1;
                m = ReauthenticateMail u1 otp
            in (case Mailer c m of
                 Some err \<Rightarrow>
                   (Some (Wrap err ''Error sending reauthentication email''),
                    w\<lparr>usr := u1\<lparr>ReauthenticationToken := oldToken\<rparr>, outbox := outbox w @ [m], draws := Suc (draws w)\<rparr>)
               | None \<Rightarrow>
                   let u2 = u1\<lparr>ReauthenticationSentAt := Some now\<rparr>;
                       (err, rows') = UpdateOnly (UpdateOnly_fault c) u2 [reauthentication_token, reauthentication_sent_at] (rows w)
                   in (errors_Wrap err ''Database error updating user for reauthentication'',
                       \<lparr>rows = rows', usr = u2, outbox = outbox w @ [m], draws = Suc (draws w)\<rparr>)))"

text \<open>
  Magic link "is just a recovery with a different template": it tests and writes the
  recovery token and the recovery timestamp.
\<close>

definition sendMagicLink :: "collab \<Rightarrow> Duration \<Rightarrow> string \<Rightarrow> int \<Rightarrow> world \<Rightarrow> error option \<times> world" where
  "sendMagicLink c maxFrequency referrerURL otpLength w =
     (if frequency_limit_reached (RecoverySentAt (usr w)) maxFrequency (Now c 0)
      then (Some MaxFrequencyLimitError, w)
      else
        let oldToken = RecoveryToken (usr w) in
        case GenerateOtp c (draws w) otpLength of
          Inl err \<Rightarrow> (Some err, w\<lparr>draws := Suc (draws w)\<rparr>)
        | Inr otp \<Rightarrow>
            let u1 = (usr w)\<lparr>RecoveryToken := hashed_token (Sum224 c) (GetEmail (usr w)) otp\<rparr>;
                now = Now c 1;
                m = MagicLinkMail u1 otp referrerURL
            in (case Mailer c m of
                 Some err \<Rightarrow>
                   (Some (Wrap err ''Error sending magic link email''),
                    w\<lparr>usr := u1\<lparr>RecoveryToken := oldToken\<rparr>, outbox := outbox w @ [m], draws := Suc (draws w)\<rparr>)
               | None \<Rightarrow>
                   let u2 = u1\<lparr>RecoverySentAt := Some now\<rparr>;
                       (err, rows') = UpdateOnly (UpdateOnly_fault c) u2 [recovery_token, recovery_sent_at] (rows w)
                   in (errors_Wrap err ''Database error updating user for recovery'',
                       \<lparr>rows = rows', usr = u2, outbox = outbox w @ [m], draws = Suc (draws w)\<rparr>)))"

text \<open>
  \<open>sendEmailChange\<close> draws one code for the new address and, in secure mode with a
  current email, a second one; it restores nothing when the mailer fails.
\<close>

definition sendEmailChange :: "collab \<Rightarrow> bool \<Rightarrow> string \<Rightarrow> string \<Rightarrow> int \<Rightarrow> world \<Rightarrow> error option \<times> world" where
  "sendEmailChange c SecureEmailChangeEnabled email referrerURL otpLength w =
     (case GenerateOtp c (draws w) otpLength of
        Inl err \<Rightarrow> (Some err, w\<lparr>draws := Suc (draws w)\<rparr>)
      | Inr otpNew \<Rightarrow>
          let u1 = (usr w)\<lparr>EmailChangeTokenNew := hashed_token (Sum224 c) (EmailChange (usr w)) otpNew\<rparr>;
              w1 = w\<lparr>usr := u1, draws := Suc (draws w)\<rparr>
          in (case (if SecureEmailChangeEnabled \<and> GetEmail u1 \<noteq> ''''
                   then (case GenerateOtp c (draws w1) otpLength of
                           Inl err \<Rightarrow> Inl (err, w1\<lparr>draws := Suc (draws w1)\<rparr>)
                         | Inr otpCurrent \<Rightarrow>
                             Inr (otpCurrent,
                                  w1\<lparr>usr := u1\<lparr>EmailChangeTokenCurrent := hashed_token (Sum224 c) (GetEmail u1) otpCurrent\<rparr>,
                                     draws := Suc (draws w1)\<rparr>))
                   else Inr ('''', w1)) of
               Inl (err, w2) \<Rightarrow> (Some err, w2)
             | Inr (otpCurrent, w2) \<Rightarrow>
                 let u3 = (usr w2)\<lparr>EmailChange := email, EmailChangeConfirmStatus := zeroConfirmation\<rparr>;
                     now = Now c 0;
                     m = EmailChangeMail u3 otpNew otpCurrent referrerURL;
                     w3 = w2\<lparr>usr := u3, outbox := outbox w2 @ [m]\<rparr>
                 in (case Mailer c m of
                      Some err \<Rightarrow> (Some err, w3)
                    | None \<Rightarrow>
                        let u4 = u3\<lparr>EmailChangeSentAt := Some now\<rparr>;
                            (err, rows') = UpdateOnly (UpdateOnly_fault c) u4
                               [email_change_token_current, email_change_token_new, email_change,
                                email_change_sent_at, email_change_confirm_status] (rows w3)
                        in (errors_Wrap err ''Database error updating user for email change'',
                            w3\<lparr>rows := rows', usr := u4\<rparr>))))"

section \<open>The AMR ledger\<close>

record AMRClaim =
  claim_ID :: uuid
  claim_SessionID :: uuid
  claim_CreatedAt :: Time
  claim_UpdatedAt :: Time
  claim_AuthenticationMethod :: string

text \<open>\<open>type AuthenticationMethod int\<close> with its four constants and its \<open>String\<close> method.\<close>

type_synonym AuthenticationMethod = int

definition OAuth :: AuthenticationMethod where "OAuth = 0"
definition PasswordGrant :: AuthenticationMethod where "PasswordGrant = 1"
definition OTP :: AuthenticationMethod where "OTP = 2"
definition TOTPSignIn :: AuthenticationMethod where "TOTPSignIn = 3"

definition AuthenticationMethod_String :: "AuthenticationMethod \<Rightarrow> string" where
  "AuthenticationMethod_String authMethod =
     (if authMethod = OAuth then ''oauth''
      else if authMethod = PasswordGrant then ''password''
      else if authMethod = OTP then ''otp''
      else if authMethod = TOTPSignIn then ''totp''
      else [])"

text \<open>
  Modelled from the spec: \<open>Session\<close> (its declaration is not at hand) is referenced by
  id, belongs to a user, may be bound to a factor and has an assurance level; the level is
  kept as the text that \<open>AAL1.String()\<close> hands to the update.
\<close>

record Session =
  session_ID :: uuid
  session_UserID :: uuid
  session_FactorID :: "uuid option"
  session_AAL :: string

text \<open>
  The statement of \<open>AddClaimToSession\<close>:
  \<^verbatim>\<open>INSERT INTO mfa_amr_claims(...) values (...) ON CONFLICT ON CONSTRAINT
  mfa_amr_claims_session_id_authentication_method_pkey DO UPDATE SET updated_at = ?\<close>.
  A row conflicts when it has the same session id and the same authentication method;
  then the conflicting row gets the new \<open>updated_at\<close> and nothing is inserted.
\<close>

definition conflicts :: "AMRClaim \<Rightarrow> AMRClaim \<Rightarrow> bool" where
  "conflicts new c \<longleftrightarrow>
     claim_SessionID c = claim_SessionID new \<and>
     claim_AuthenticationMethod c = claim_AuthenticationMethod new"

definition insert_on_conflict_update :: "AMRClaim \<Rightarrow> Time \<Rightarrow> AMRClaim list \<Rightarrow> AMRClaim list" where
  "insert_on_conflict_update new t claims =
     (if list_ex (conflicts new) claims
      then map (\<lambda>c. if conflicts new c then c\<lparr>claim_UpdatedAt := t\<rparr> else c) claims
      else claims @ [new])"

text \<open>
  The collaborators of one call of \<open>AddClaimToSession\<close>: the outcome of
  \<open>uuid.NewV4()\<close>, the reading of \<open>time.Now()\<close> and the outcome of \<open>Exec\<close>.
\<close>

record ledger_call =
  NewV4 :: "error + uuid"
  currentTime :: Time
  Exec_fault :: "error option"

definition AddClaimToSession :: "ledger_call \<Rightarrow> Session \<Rightarrow> AuthenticationMethod \<Rightarrow> AMRClaim list \<Rightarrow> error option \<times> AMRClaim list" where
  "AddClaimToSession k session authenticationMethod claims =
     (case NewV4 k of
        Inl err \<Rightarrow> (Some (Wrap err ''Error generating unique claim id''), claims)
      | Inr id' \<Rightarrow>
          (case Exec_fault k of
             Some err \<Rightarrow> (Some err, claims)
           | None \<Rightarrow>
               (None,
                insert_on_conflict_update
                  \<lparr>claim_ID = id', claim_SessionID = session_ID session,
                   claim_CreatedAt = currentTime k, claim_UpdatedAt = currentTime k,
                   claim_AuthenticationMethod = AuthenticationMethod_String authenticationMethod\<rparr>
                  (currentTime k) claims)))"

text \<open>
  The pair under the uniqueness constraint, the rows of one pair, and whether a call gets
  as far as a successful \<open>Exec\<close>.
\<close>

definition claim_key :: "AMRClaim \<Rightarrow> uuid \<times> string" where
  "claim_key c = (claim_SessionID c, claim_AuthenticationMethod c)"

definition claims_of :: "Session \<Rightarrow> AuthenticationMethod \<Rightarrow> AMRClaim list \<Rightarrow> AMRClaim list" where
  "claims_of session m cs =
     filter (\<lambda>c. claim_key c = (session_ID session, AuthenticationMethod_String m)) cs"

definition succeeds :: "ledger_call \<Rightarrow> bool" where
  "succeeds k = (case NewV4 k of Inl err \<Rightarrow> False | Inr i \<Rightarrow> Exec_fault k = None)"

text \<open>Calls made one after the other for the same session and method.\<close>

fun AddClaimToSession_calls :: "ledger_call list \<Rightarrow> Session \<Rightarrow> AuthenticationMethod \<Rightarrow> AMRClaim list \<Rightarrow> AMRClaim list" where
  "AddClaimToSession_calls [] session m claims = claims"
| "AddClaimToSession_calls (k # ks) session m claims =
     AddClaimToSession_calls ks session m (snd (AddClaimToSession k session m claims))"

section \<open>Factors\<close>

text \<open>
  The columns of \<open>Factor\<close>; its eagerly loaded owner (the field \<open>User\<close>) is not a column
  and plays no part below.
\<close>

record Factor =
  factor_ID :: uuid
  factor_UserID :: uuid
  factor_CreatedAt :: Time
  factor_UpdatedAt :: Time
  Status :: string
  FriendlyName :: string
  Secret :: string
  FactorType :: string

text \<open>
  \<open>tx.Eager().Q().Where(query, args...).First(obj)\<close>: the driver's error, or
  \<open>sql.ErrNoRows\<close> when no row satisfies the query, or the first row that does.
\<close>

definition First :: "error option \<Rightarrow> (Factor \<Rightarrow> bool) \<Rightarrow> Factor list \<Rightarrow> error + Factor" where
  "First fault query factors =
     (case fault of
        Some e \<Rightarrow> Inl e
      | None \<Rightarrow> (case find query factors of None \<Rightarrow> Inl ErrNoRows | Some obj \<Rightarrow> Inr obj))"

definition findFactor :: "error option \<Rightarrow> (Factor \<Rightarrow> bool) \<Rightarrow> Factor list \<Rightarrow> error + Factor" where
  "findFactor fault query factors =
     (case First fault query factors of
        Inl err \<Rightarrow>
          (if Cause err = ErrNoRows then Inl FactorNotFoundError
           else Inl (Wrap err ''Database error finding factor''))
      | Inr obj \<Rightarrow> Inr obj)"

definition FindFactorByFactorID :: "error option \<Rightarrow> uuid \<Rightarrow> Factor list \<Rightarrow> error + Factor" where
  "FindFactorByFactorID fault factorID factors =
     (case findFactor fault (\<lambda>f. factor_ID f = factorID) factors of
        Inl err \<Rightarrow> Inl FactorNotFoundError
      | Inr factor \<Rightarrow> Inr factor)"

section \<open>Downgrading the sessions of a factor\<close>

text \<open>The tables behind \<open>tx\<close> that the downgrade reads and writes.\<close>

record tables =
  sessions :: "Session list"
  claims :: "AMRClaim list"

text \<open>
  Modelled from the spec: \<open>FindSessionsByFactorID\<close> (its source is not at hand) is the
  query "sessions by factor id": the sessions currently bound to the factor, or the error
  of the query.
\<close>

definition FindSessionsByFactorID :: "error option \<Rightarrow> uuid \<Rightarrow> tables \<Rightarrow> error + Session list" where
  "FindSessionsByFactorID fault factorID db =
     (case fault of
        Some e \<Rightarrow> Inl e
      | None \<Rightarrow> Inr (filter (\<lambda>s. session_FactorID s = Some factorID) (sessions db)))"

text \<open>
  Modelled from the spec: \<open>updateFactorAssociatedSessions\<close> (its source is not at hand)
  sets the assurance level of every session that belongs to the user and is associated
  with the factor, in one statement that writes nothing when it fails.
\<close>

definition updateFactorAssociatedSessions :: "error option \<Rightarrow> uuid \<Rightarrow> uuid \<Rightarrow> string \<Rightarrow> tables \<Rightarrow> error option \<times> tables" where
  "updateFactorAssociatedSessions fault userID factorID aal db =
     (case fault of
        Some e \<Rightarrow> (Some e, db)
      | None \<Rightarrow>
          (None,
           db\<lparr>sessions :=
                map (\<lambda>s. if session_UserID s = userID \<and> session_FactorID s = Some factorID
                         then s\<lparr>session_AAL := aal\<rparr> else s) (sessions db)\<rparr>))"

text \<open>
  Modelled from the spec: \<open>AAL1.String()\<close> (the declaration of \<open>AAL1\<close> is not at hand)
  is the text of the baseline assurance level.
\<close>

definition AAL1_String :: string where
  "AAL1_String = ''aal1''"

text \<open>
  \<^verbatim>\<open>DELETE FROM mfa_amr_claims WHERE session_id = ? AND authentication_method = ?\<close>
\<close>

definition delete_claim :: "uuid \<Rightarrow> string \<Rightarrow> AMRClaim list \<Rightarrow> AMRClaim list" where
  "delete_claim sessionID method cs =
     filter (\<lambda>c. \<not> (claim_SessionID c = sessionID \<and> claim_AuthenticationMethod c = method)) cs"

text \<open>
  The loop of \<open>DowngradeSessionsToAAL1\<close>. \<open>fault i\<close> is the outcome of the \<open>i\<close>-th
  statement that the call sends to \<open>tx\<close>, counted from 0: \<open>None\<close> when it succeeds. The
  loop returns at the first statement that fails.
\<close>

fun delete_claims :: "(nat \<Rightarrow> error option) \<Rightarrow> nat \<Rightarrow> string \<Rightarrow> Session list \<Rightarrow> AMRClaim list \<Rightarrow> error option \<times> AMRClaim list" where
  "delete_claims fault i factorType [] cs = (None, cs)"
| "delete_claims fault i factorType (session # rest) cs =
     (case fault i of
        Some err \<Rightarrow> (Some err, cs)
      | None \<Rightarrow> delete_claims fault (Suc i) factorType rest (delete_claim (session_ID session) factorType cs))"

definition DowngradeSessionsToAAL1 :: "(nat \<Rightarrow> error option) \<Rightarrow> Factor \<Rightarrow> tables \<Rightarrow> error option \<times> tables" where
  "DowngradeSessionsToAAL1 fault f db =
     (case FindSessionsByFactorID (fault 0) (factor_ID f) db of
        Inl err \<Rightarrow> (Some err, db)
      | Inr found \<Rightarrow>
          (case delete_claims fault 1 (FactorType f) found (claims db) of
             (Some err, cs) \<Rightarrow> (Some err, db\<lparr>claims := cs\<rparr>)
           | (None, cs) \<Rightarrow>
               updateFactorAssociatedSessions (fault (Suc (length found)))
                 (factor_UserID f) (factor_ID f) AAL1_String (db\<lparr>claims := cs\<rparr>)))"

text \<open>
  Modelled from the spec: \<open>Transaction\<close> of \<open>storage.Connection\<close> (its source is not at
  hand) runs the function on the connection; "transaction abort = full rollback": when
  the function returns an error nothing it wrote is kept.
\<close>

definition Transaction :: "('s \<Rightarrow> error option \<times> 's) \<Rightarrow> 's \<Rightarrow> error option \<times> 's" where
  "Transaction fn db = (case fn db of (Some err, db') \<Rightarrow> (Some err, db) | (None, db') \<Rightarrow> (None, db'))"

section \<open>Link generation\<close>

record GenerateLinkParams =
  params_Type :: string
  params_Email :: string
  params_NewEmail :: string
  params_Password :: string
  params_Data :: string
  params_RedirectTo :: string

record GenerateLinkResponse =
  resp_User :: User
  ActionLink :: string
  EmailOtp :: string
  HashedToken :: string
  VerificationType :: string
  resp_RedirectTo :: string

record SignupParams =
  signup_Email :: string
  signup_Password :: string
  signup_Data :: string
  signup_Provider :: string
  signup_Aud :: string

text \<open>
  Modelled from the spec: the constants \<open>magicLinkVerification\<close>, \<open>recoveryVerification\<close>,
  \<open>inviteVerification\<close> and \<open>signupVerification\<close> (their declarations are not at hand) name
  the kinds magic link, recovery, invite and signup. Only their being pairwise distinct,
  and distinct from the two literal kinds of email change, matters below; a Go \<open>switch\<close>
  does not compile otherwise.
\<close>

definition magicLinkVerification :: string where "magicLinkVerification = ''magiclink''"
definition recoveryVerification :: string where "recoveryVerification = ''recovery''"
definition inviteVerification :: string where "inviteVerification = ''invite''"
definition signupVerification :: string where "signupVerification = ''signup''"

text \<open>
  The collaborators of one request, beyond those of the mail flows: the request body and
  its decoding, the mailer's \<open>ValidateEmail\<close> and \<open>GetEmailActionLink\<close>,
  \<open>strings.ToLower\<close>, the audience and the referrer of the request, the outcomes of the
  user query and of the audit-log insert, \<open>password.Generate\<close>, the user's methods
  \<open>IsConfirmed\<close> and \<open>UpdateUserMetaData\<close> (which yields the merged metadata that it
  stores), the signup helpers, \<open>IsDuplicatedEmail\<close>, and the three configuration values
  read.
\<close>

record api = collab +
  getBodyBytes :: "error + string"
  json_Unmarshal :: "string \<Rightarrow> error + GenerateLinkParams"
  ValidateEmail :: "string \<Rightarrow> error option"
  ToLower :: "string \<Rightarrow> string"
  requestAud :: string
  FindUser_fault :: "error option"
  password_Generate :: "error + string"
  getRedirectURLOrReferrer :: "string \<Rightarrow> string"
  NewAuditLogEntry_fault :: "error option"
  IsConfirmed :: "User \<Rightarrow> bool"
  UpdateUserMetaData :: "User \<Rightarrow> string \<Rightarrow> error + string"
  signupNewUser :: "SignupParams \<Rightarrow> error + User"
  createNewIdentity :: "User \<Rightarrow> error + string"
  IsDuplicatedEmail :: "User list \<Rightarrow> string \<Rightarrow> string \<Rightarrow> error + bool"
  GetEmailActionLink :: "User \<Rightarrow> string \<Rightarrow> string \<Rightarrow> error + string"
  OtpLength :: int
  PasswordMinLength :: int
  SecureEmailChangeEnabled :: bool

definition validateEmail :: "'a api_scheme \<Rightarrow> string \<Rightarrow> error + string" where
  "validateEmail a email =
     (if email = [] then Inl (HTTPError unprocessableEntityError ''An email address is required'' None)
      else case ValidateEmail a email of
             Some err \<Rightarrow> Inl (HTTPError unprocessableEntityError ''Unable to validate email address: '' (Some err))
           | None \<Rightarrow> Inr (ToLower a email))"

text \<open>
  Modelled from the spec: \<open>FindUserByEmailAndAudience\<close> and \<open>IsNotFoundError\<close> (their
  source is not at hand): the user lookup by email and audience, whose miss is a not-found
  error, distinguished from a generic storage fault.
\<close>

definition FindUserByEmailAndAudience :: "error option \<Rightarrow> User list \<Rightarrow> string \<Rightarrow> string \<Rightarrow> error + User" where
  "FindUserByEmailAndAudience fault table email aud =
     (case fault of
        Some e \<Rightarrow> Inl e
      | None \<Rightarrow>
          (case find (\<lambda>u. Email u = email \<and> Aud u = aud) table of
             None \<Rightarrow> Inl UserNotFoundError
           | Some u \<Rightarrow> Inr u))"

definition IsNotFoundError :: "error \<Rightarrow> bool" where
  "IsNotFoundError err \<longleftrightarrow> err = UserNotFoundError"

text \<open>
  What the function passed to \<open>db.Transaction\<close> reads and writes: the users table and the
  audit log behind \<open>tx\<close>, and the variables \<open>params\<close>, \<open>user\<close> and \<open>url\<close> of
  \<open>GenerateLink\<close> that it assigns. After an error \<open>GenerateLink\<close> reads none of the three.
\<close>

record link_tx =
  users :: "User list"
  audit_log :: "string list"
  var_params :: GenerateLinkParams
  var_user :: "User option"
  var_url :: string

text \<open>
  \<open>models.NewAuditLogEntry\<close>: the insert fails, or the action is logged.
\<close>

definition NewAuditLogEntry :: "'a api_scheme \<Rightarrow> string \<Rightarrow> link_tx \<Rightarrow> error option \<times> link_tx" where
  "NewAuditLogEntry a action st =
     (case NewAuditLogEntry_fault a of
        Some terr \<Rightarrow> (Some terr, st)
      | None \<Rightarrow> (None, st\<lparr>audit_log := audit_log st @ [action]\<rparr>))"

text \<open>
  Modelled from the spec: the invite and signup kinds provision "a new unconfirmed account
  and a primary identity record" through \<open>signupNewUser\<close> and \<open>createNewIdentity\<close> (their
  source is not at hand); the new account becomes a row, and the identity is attached to
  the user in memory.
\<close>

definition provision :: "'a api_scheme \<Rightarrow> SignupParams \<Rightarrow> link_tx \<Rightarrow> error option \<times> link_tx" where
  "provision a signupParams st =
     (case signupNewUser a signupParams of
        Inl terr \<Rightarrow> (Some terr, st)
      | Inr u \<Rightarrow>
          (case createNewIdentity a u of
             Inl terr \<Rightarrow> (Some terr, st\<lparr>users := users st @ [u], var_user := Some u\<rparr>)
           | Inr identity \<Rightarrow>
               (None, st\<lparr>users := users st @ [u], var_user := Some (u\<lparr>Identities := [identity]\<rparr>)\<rparr>)))"

text \<open>The end of every kind: set the token fields and write the named columns.\<close>

definition update_user :: "'a api_scheme \<Rightarrow> User \<Rightarrow> user_column list \<Rightarrow> string \<Rightarrow> link_tx \<Rightarrow> error option \<times> link_tx" where
  "update_user a u cols msg st =
     (let (err, rows') = UpdateOnly (UpdateOnly_fault a) u cols (users st)
      in (errors_Wrap err msg, st\<lparr>users := rows', var_user := Some u\<rparr>))"

definition link_recovery :: "'a api_scheme \<Rightarrow> Time \<Rightarrow> string \<Rightarrow> link_tx \<Rightarrow> error option \<times> link_tx" where
  "link_recovery a now hashedToken st =
     (case var_user st of
        None \<Rightarrow> (Some (Panic ''nil pointer dereference''), st)
      | Some user \<Rightarrow>
          (case NewAuditLogEntry a ''UserRecoveryRequestedAction'' st of
             (Some terr, st1) \<Rightarrow> (Some terr, st1)
           | (None, st1) \<Rightarrow>
               update_user a (user\<lparr>RecoveryToken := hashedToken, RecoverySentAt := Some now\<rparr>)
                 [recovery_token, recovery_sent_at] ''Database error updating user for recovery'' st1))"

definition link_invite :: "'a api_scheme \<Rightarrow> string \<Rightarrow> Time \<Rightarrow> string \<Rightarrow> link_tx \<Rightarrow> error option \<times> link_tx" where
  "link_invite a aud now hashedToken st =
     (case (case var_user st of
              Some user \<Rightarrow>
                (if IsConfirmed a user
                 then (Some (HTTPError unprocessableEntityError ''DuplicateEmailMsg'' None), st)
                 else (None, st))
            | None \<Rightarrow>
                provision a
                  \<lparr>signup_Email = params_Email (var_params st), signup_Password = [],
                   signup_Data = params_Data (var_params st), signup_Provider = ''email'', signup_Aud = aud\<rparr> st) of
        (Some terr, st1) \<Rightarrow> (Some terr, st1)
      | (None, st1) \<Rightarrow>
          (case var_user st1 of
             None \<Rightarrow> (Some (Panic ''nil pointer dereference''), st1)
           | Some user \<Rightarrow>
               (case NewAuditLogEntry a ''UserInvitedAction'' st1 of
                  (Some terr, st2) \<Rightarrow> (Some terr, st2)
                | (None, st2) \<Rightarrow>
                    update_user a
                      (user\<lparr>ConfirmationToken := hashedToken, ConfirmationSentAt := Some now, InvitedAt := Some now\<rparr>)
                      [confirmation_token, confirmation_sent_at, invited_at]
                      ''Database error updating user for invite'' st2)))"

definition link_signup :: "'a api_scheme \<Rightarrow> string \<Rightarrow> Time \<Rightarrow> string \<Rightarrow> link_tx \<Rightarrow> error option \<times> link_tx" where
  "link_signup a aud now hashedToken st =
     (case (case var_user st of
              Some user \<Rightarrow>
                (if IsConfirmed a user
                 then (Some (HTTPError unprocessableEntityError ''DuplicateEmailMsg'' None), st)
                 else (case UpdateUserMetaData a user (params_Data (var_params st)) of
                         Inl err \<Rightarrow> (Some (HTTPError internalServerError ''Database error updating user'' (Some err)), st)
                       | Inr merged \<Rightarrow>
                           (None,
                            st\<lparr>users := map (\<lambda>r. if user_ID r = user_ID user
                                                  then r\<lparr>UserMetaData := merged\<rparr> else r) (users st),
                               var_user := Some (user\<lparr>UserMetaData := merged\<rparr>)\<rparr>)))
            | None \<Rightarrow>
                (if params_Password (var_params st) = []
                 then (Some (HTTPError unprocessableEntityError ''Signup requires a valid password'' None), st)
                 else if int (length (params_Password (var_params st))) < PasswordMinLength a
                 then (Some (HTTPError unprocessableEntityError ''Password should be at least %d characters'' None), st)
                 else provision a
                        \<lparr>signup_Email = params_Email (var_params st),
                         signup_Password = params_Password (var_params st),
                         signup_Data = params_Data (var_params st), signup_Provider = ''email'', signup_Aud = aud\<rparr> st)) of
        (Some terr, st1) \<Rightarrow> (Some terr, st1)
      | (None, st1) \<Rightarrow>
          (case var_user st1 of
             None \<Rightarrow> (Some (Panic ''nil pointer dereference''), st1)
           | Some user \<Rightarrow>
               update_user a
                 (user\<lparr>ConfirmationToken := hashedToken, ConfirmationSentAt := Some now\<rparr>)
                 [confirmation_token, confirmation_sent_at]
                 ''Database error updating user for confirmation'' st1))"

definition link_email_change :: "'a api_scheme \<Rightarrow> string \<Rightarrow> string \<Rightarrow> link_tx \<Rightarrow> error option \<times> link_tx" where
  "link_email_change a otp hashedToken st =
     (if \<not> SecureEmailChangeEnabled a \<and> params_Type (var_params st) = ''email_change_current''
      then (Some (HTTPError unprocessableEntityError
                    ''Enable secure email change to generate link for current email'' None), st)
      else
        case validateEmail a (params_NewEmail (var_params st)) of
          Inl terr \<Rightarrow>
            (Some (HTTPError unprocessableEntityError ''The new email address provided is invalid'' None),
             st\<lparr>var_params := (var_params st)\<lparr>params_NewEmail := []\<rparr>\<rparr>)
        | Inr newEmail \<Rightarrow>
            let st1 = st\<lparr>var_params := (var_params st)\<lparr>params_NewEmail := newEmail\<rparr>\<rparr> in
            (case var_user st1 of
               None \<Rightarrow> (Some (Panic ''nil pointer dereference''), st1)
             | Some user \<Rightarrow>
                 (case IsDuplicatedEmail a (users st1) newEmail (Aud user) of
                    Inl terr \<Rightarrow> (Some (HTTPError internalServerError ''Database error checking email'' (Some terr)), st1)
                  | Inr exists \<Rightarrow>
                      if exists then (Some (HTTPError unprocessableEntityError ''DuplicateEmailMsg'' None), st1)
                      else
                        let now = Now a 1;
                            user1 = user\<lparr>EmailChangeSentAt := Some now, EmailChange := newEmail,
                                         EmailChangeConfirmStatus := zeroConfirmation\<rparr>;
                            user2 = (if params_Type (var_params st1) = ''email_change_current''
                                     then user1\<lparr>EmailChangeTokenCurrent := hashedToken\<rparr>
                                     else if params_Type (var_params st1) = ''email_change_new''
                                     then user1\<lparr>EmailChangeTokenNew := hashed_token (Sum224 a) newEmail otp\<rparr>
                                     else user1)
                        in update_user a user2
                             [email_change_token_current, email_change_token_new, email_change,
                              email_change_sent_at, email_change_confirm_status]
                             ''Database error updating user for email change'' st1)))"

text \<open>The function passed to \<open>db.Transaction\<close>: the \<open>switch\<close> on the kind, then the action link.\<close>

definition link_transaction :: "'a api_scheme \<Rightarrow> string \<Rightarrow> string \<Rightarrow> Time \<Rightarrow> string \<Rightarrow> string \<Rightarrow> link_tx \<Rightarrow> error option \<times> link_tx" where
  "link_transaction a aud referrer now otp hashedToken st =
     (case (if params_Type (var_params st) = magicLinkVerification \<or> params_Type (var_params st) = recoveryVerification
            then link_recovery a now hashedToken st
            else if params_Type (var_params st) = inviteVerification
            then link_invite a aud now hashedToken st
            else if params_Type (var_params st) = signupVerification
            then link_signup a aud now hashedToken st
            else if params_Type (var_params st) = ''email_change_current'' \<or> params_Type (var_params st) = ''email_change_new''
            then link_email_change a otp hashedToken st
            else (Some (HTTPError badRequestError ''Invalid email action link type requested: %v'' None), st)) of
        (Some terr, st1) \<Rightarrow> (Some terr, st1)
      | (None, st1) \<Rightarrow>
          (case var_user st1 of
             None \<Rightarrow> (Some (Panic ''nil pointer dereference''), st1)
           | Some user \<Rightarrow>
               (case GetEmailActionLink a user (params_Type (var_params st1)) referrer of
                  Inl terr \<Rightarrow> (Some terr, st1)
                | Inr link \<Rightarrow> (None, st1\<lparr>var_url := link\<rparr>))))"

text \<open>
  The part of \<open>GenerateLink\<close> between the validation of the email and the transaction:
  the user lookup and what a miss means for each kind.
\<close>

definition lookup_user :: "'a api_scheme \<Rightarrow> User list \<Rightarrow> GenerateLinkParams \<Rightarrow> string \<Rightarrow> error + (User option \<times> GenerateLinkParams)" where
  "lookup_user a table params aud =
     (case FindUserByEmailAndAudience (FindUser_fault a) table (params_Email params) aud of
        Inr user \<Rightarrow> Inr (Some user, params)
      | Inl err \<Rightarrow>
          if IsNotFoundError err then
            (if params_Type params = magicLinkVerification then
               (case password_Generate a of
                  Inl err' \<Rightarrow> Inl (HTTPError internalServerError ''error creating user'' (Some err'))
                | Inr pw \<Rightarrow> Inr (None, params\<lparr>params_Type := signupVerification, params_Password := pw\<rparr>))
             else if params_Type params = recoveryVerification \<or> params_Type params = ''email_change_current''
                     \<or> params_Type params = ''email_change_new''
             then Inl (HTTPError notFoundError ''%v'' (Some err))
             else Inr (None, params))
          else Inl (HTTPError internalServerError ''Database error finding user'' (Some err)))"

definition GenerateLink :: "'a api_scheme \<Rightarrow> User list \<times> string list \<Rightarrow> (error + GenerateLinkResponse) \<times> (User list \<times> string list)" where
  "GenerateLink a db =
     (case getBodyBytes a of
        Inl err \<Rightarrow> (Inl (HTTPError badRequestError ''Could not read body'' (Some err)), db)
      | Inr body \<Rightarrow>
     (case json_Unmarshal a body of
        Inl err \<Rightarrow> (Inl (HTTPError badRequestError ''Could not parse JSON: %v'' (Some err)), db)
      | Inr params0 \<Rightarrow>
     (case validateEmail a (params_Email params0) of
        Inl err \<Rightarrow> (Inl err, db)
      | Inr email \<Rightarrow>
     (let aud = requestAud a in
      case lookup_user a (fst db) (params0\<lparr>params_Email := email\<rparr>) aud of
        Inl err \<Rightarrow> (Inl err, db)
      | Inr (user, params) \<Rightarrow>
     (let referrer = getRedirectURLOrReferrer a (params_RedirectTo params);
          now = Now a 0
      in case GenerateOtp a 0 (OtpLength a) of
        Inl err \<Rightarrow> (Inl err, db)
      | Inr otp \<Rightarrow>
     (let hashedToken = hashed_token (Sum224 a) (params_Email params) otp
      in case Transaction (link_transaction a aud referrer now otp hashedToken)
                \<lparr>users = fst db, audit_log = snd db, var_params = params, var_user = user, var_url = []\<rparr> of
        (Some err, st) \<Rightarrow> (Inl err, (users st, audit_log st))
      | (None, st) \<Rightarrow>
          (case var_user st of
             None \<Rightarrow> (Inl (Panic ''nil pointer dereference''), (users st, audit_log st))
           | Some user' \<Rightarrow>
               (Inr \<lparr>resp_User = user', ActionLink = var_url st, EmailOtp = otp,
                     HashedToken = hashedToken, VerificationType = params_Type (var_params st),
                     resp_RedirectTo = referrer\<rparr>,
                (users st, audit_log st)))))))))"

section \<open>Concrete data for the closed examples\<close>

text \<open>
  A stand-in for the digest in the closed examples only: the first 28 bytes of the input,
  padded with zeros. Every theorem below holds for any \<open>Sum224\<close>.
\<close>

definition example_Sum224 :: "string \<Rightarrow> digest224" where
  "example_Sum224 s = Abs_digest224 (take 28 (map of_char s @ replicate 28 0))"

definition example_user :: User where
  "example_user =
     \<lparr>user_ID = 7, Aud = ''authenticated'', Email = ''ann@example.org'',
      ConfirmationToken = ''A'', ConfirmationSentAt = Some 1000, InvitedAt = None,
      RecoveryToken = ''A'', RecoverySentAt = Some 1000,
      ReauthenticationToken = ''A'', ReauthenticationSentAt = Some 1000,
      EmailChange = [], EmailChangeTokenCurrent = [], EmailChangeTokenNew = [],
      EmailChangeSentAt = None, EmailChangeConfirmStatus = 0, UserMetaData = [], Identities = []\<rparr>"

definition example_world :: world where
  "example_world = \<lparr>rows = [example_user], usr = example_user, outbox = [], draws = 0\<rparr>"

text \<open>Collaborators whose clock always reads \<open>now\<close> and whose mailer is \<open>mailer\<close>.\<close>

definition example_collab :: "Time \<Rightarrow> (mail \<Rightarrow> error option) \<Rightarrow> collab" where
  "example_collab now mailer =
     \<lparr>Sum224 = example_Sum224, GenerateOtp = (\<lambda>k n. Inr ''123456''), Now = (\<lambda>k. now),
      Mailer = mailer, UpdateOnly_fault = None\<rparr>"

text \<open>
  A verified TOTP factor of user 7, two sessions of that user bound to it and one that is
  not, and their claims.
\<close>

definition example_factor :: Factor where
  "example_factor =
     \<lparr>factor_ID = 1, factor_UserID = 7, factor_CreatedAt = 0, factor_UpdatedAt = 0,
      Status = ''verified'', FriendlyName = ''phone'', Secret = ''JBSWY3DPEHPK3PXP'', FactorType = ''totp''\<rparr>"

definition example_session :: "uuid \<Rightarrow> uuid option \<Rightarrow> string \<Rightarrow> Session" where
  "example_session i factor aal =
     \<lparr>session_ID = i, session_UserID = 7, session_FactorID = factor, session_AAL = aal\<rparr>"

definition example_claim :: "uuid \<Rightarrow> uuid \<Rightarrow> Time \<Rightarrow> Time \<Rightarrow> string \<Rightarrow> AMRClaim" where
  "example_claim i session created updated method =
     \<lparr>claim_ID = i, claim_SessionID = session, claim_CreatedAt = created, claim_UpdatedAt = updated,
      claim_AuthenticationMethod = method\<rparr>"

definition example_tables :: tables where
  "example_tables =
     \<lparr>sessions = [example_session 11 (Some 1) ''aal2'', example_session 12 (Some 1) ''aal2'',
                 example_session 13 None ''aal1''],
      claims = [example_claim 101 11 5 5 ''password'', example_claim 102 11 6 6 ''totp'',
               example_claim 103 12 7 7 ''totp'', example_claim 104 13 8 8 ''password'']\<rparr>"

text \<open>A call of \<open>AddClaimToSession\<close> that draws the id \<open>i\<close> at time \<open>t\<close> and whose statement succeeds.\<close>

definition example_call :: "uuid \<Rightarrow> Time \<Rightarrow> ledger_call" where
  "example_call i t = \<lparr>NewV4 = Inr i, currentTime = t, Exec_fault = None\<rparr>"

text \<open>
  \<open>strings.ToLower\<close> on ASCII text, and a request for a link of the given kind: the body
  decodes to the given emails, every collaborator succeeds, no email is a duplicate, and
  signup is closed.
\<close>

definition example_ToLower :: "string \<Rightarrow> string" where
  "example_ToLower s =
     map (\<lambda>c. case map_of (zip ''ABCDEFGHIJKLMNOPQRSTUVWXYZ'' ''abcdefghijklmnopqrstuvwxyz'') c of
                None \<Rightarrow> c | Some l \<Rightarrow> l) s"

definition example_api :: "string \<Rightarrow> string \<Rightarrow> string \<Rightarrow> api" where
  "example_api kind email newEmail =
     \<lparr>Sum224 = example_Sum224, GenerateOtp = (\<lambda>k n. Inr ''123456''), Now = (\<lambda>k. 2000 + int k),
      Mailer = (\<lambda>m. None), UpdateOnly_fault = None,
      getBodyBytes = Inr ''{}'',
      json_Unmarshal = (\<lambda>body. Inr \<lparr>params_Type = kind, params_Email = email, params_NewEmail = newEmail,
                                      params_Password = [], params_Data = [], params_RedirectTo = []\<rparr>),
      ValidateEmail = (\<lambda>e. None), ToLower = example_ToLower, requestAud = ''authenticated'',
      FindUser_fault = None, password_Generate = Inr ''correct horse battery staple'',
      getRedirectURLOrReferrer = (\<lambda>r. ''https://example.org''), NewAuditLogEntry_fault = None,
      IsConfirmed = (\<lambda>u. True), UpdateUserMetaData = (\<lambda>u d. Inr d),
      signupNewUser = (\<lambda>sp. Inl (Fault ''signup disabled'')), createNewIdentity = (\<lambda>u. Inr ''email''),
      IsDuplicatedEmail = (\<lambda>table e aud. Inr False),
      GetEmailActionLink = (\<lambda>u kind referrer. Inr ''https://example.org/verify''),
      OtpLength = 6, PasswordMinLength = 6, SecureEmailChangeEnabled = False\<rparr>"

section \<open>Properties of the token derivation\<close>

lemma length_Sprintf_x: "length (Sprintf_x bs) = 2 * length bs"
  by (induction bs) (simp_all add: Sprintf_x_def hex_byte_def)

lemma hex_digit_mem: "n < 16 \<Longrightarrow> hex_digit n \<in> set ''0123456789abcdef''"
  unfolding hex_digit_def by (rule nth_mem) simp

lemma unat_byte_less: "unat (b :: 8 word) < 256"
  using unsigned_less [of b, where ?'a = nat] by simp

lemma set_hex_byte: "set (hex_byte b) \<subseteq> set ''0123456789abcdef''"
proof -
  have "unat b div 16 < 16" using unat_byte_less [of b] by simp
  then have hi: "hex_digit (unat b div 16) \<in> set ''0123456789abcdef''"
    by (rule hex_digit_mem)
  have lo: "hex_digit (unat b mod 16) \<in> set ''0123456789abcdef''"
    by (rule hex_digit_mem) simp
  show ?thesis using hi lo by (simp add: hex_byte_def)
qed

lemma set_Sprintf_x: "set (Sprintf_x bs) \<subseteq> set ''0123456789abcdef''"
  unfolding Sprintf_x_def using set_hex_byte by (induction bs) auto

lemma length_Rep_digest224: "length (Rep_digest224 d) = 28"
  using Rep_digest224 [of d] by simp

lemma length_hashed_token: "length (hashed_token S i c) = 56"
  by (simp add: hashed_token_def length_Sprintf_x length_Rep_digest224)

section \<open>The frequency limit\<close>

lemma frequency_limit_reached_Some: "frequency_limit_reached (Some t0) d now = (now \<le> t0 + d)"
  by (auto simp: frequency_limit_reached_def Before_def Add_def)

lemma frequency_limit_reached_None: "frequency_limit_reached None d now = False"
  by (simp add: frequency_limit_reached_def)

lemma sendConfirmation_limited:
  "frequency_limit_reached (ConfirmationSentAt (usr w)) d (Now c 0) \<Longrightarrow>
   sendConfirmation c d r n w = (Some MaxFrequencyLimitError, w)"
  by (simp add: sendConfirmation_def)

lemma sendPasswordRecovery_limited:
  "frequency_limit_reached (RecoverySentAt (usr w)) d (Now c 0) \<Longrightarrow>
   sendPasswordRecovery c d r n w = (Some MaxFrequencyLimitError, w)"
  by (simp add: sendPasswordRecovery_def)

lemma sendReauthenticationOtp_limited:
  "frequency_limit_reached (ReauthenticationSentAt (usr w)) d (Now c 0) \<Longrightarrow>
   sendReauthenticationOtp c d n w = (Some MaxFrequencyLimitError, w)"
  by (simp add: sendReauthenticationOtp_def)

lemma sendMagicLink_limited:
  "frequency_limit_reached (RecoverySentAt (usr w)) d (Now c 0) \<Longrightarrow>
   sendMagicLink c d r n w = (Some MaxFrequencyLimitError, w)"
  by (simp add: sendMagicLink_def)

lemma sendConfirmation_proceeds:
  "\<not> frequency_limit_reached (ConfirmationSentAt (usr w)) d (Now c 0) \<Longrightarrow>
   draws (snd (sendConfirmation c d r n w)) = Suc (draws w)"
  by (simp add: sendConfirmation_def Let_def split: sum.splits option.splits prod.splits)

lemma sendPasswordRecovery_proceeds:
  "\<not> frequency_limit_reached (RecoverySentAt (usr w)) d (Now c 0) \<Longrightarrow>
   draws (snd (sendPasswordRecovery c d r n w)) = Suc (draws w)"
  by (simp add: sendPasswordRecovery_def Let_def split: sum.splits option.splits prod.splits)

text \<open>
  C5, as stated, fails at the boundary: with the last confirmation sent at 1000 and a
  minimum interval of 60, a request at exactly 1060 is refused with
  \<open>MaxFrequencyLimitError\<close> and nothing changes.
\<close>

theorem rate_gate_boundary_counterexample:
  "frequency_limit_reached (Some 1000) 60 (1000 + 60) \<and>
   ConfirmationSentAt (usr example_world) = Some 1000 \<and>
   sendConfirmation (example_collab (1000 + 60) (\<lambda>m. None)) 60 [] 6 example_world =
     (Some MaxFrequencyLimitError, example_world)"
  by (simp add: frequency_limit_reached_def Before_def Add_def sendConfirmation_def
      example_world_def example_user_def example_collab_def)

text \<open>
  C5 (amended): with no last-sent timestamp the test never refuses; with a last-sent
  timestamp \<open>t0\<close> and a minimum interval \<open>d\<close> it refuses exactly when \<open>now \<le> t0 + d\<close>, so
  the instant \<open>t0 + d\<close> itself is still refused and every later instant is allowed. When
  the test refuses, \<open>sendConfirmation\<close> and \<open>sendPasswordRecovery\<close> return
  \<open>MaxFrequencyLimitError\<close>; when it does not, they go on to draw a one-time code.
\<close>

theorem rate_gate_boundary:
  "\<not> frequency_limit_reached None d now \<and>
   (frequency_limit_reached (Some t0) d now \<longleftrightarrow> now \<le> t0 + d) \<and>
   (frequency_limit_reached (ConfirmationSentAt (usr w)) d (Now c 0) \<longrightarrow>
      fst (sendConfirmation c d r n w) = Some MaxFrequencyLimitError) \<and>
   (\<not> frequency_limit_reached (ConfirmationSentAt (usr w)) d (Now c 0) \<longrightarrow>
      draws (snd (sendConfirmation c d r n w)) = Suc (draws w)) \<and>
   (frequency_limit_reached (RecoverySentAt (usr w)) d (Now c 0) \<longrightarrow>
      fst (sendPasswordRecovery c d r n w) = Some MaxFrequencyLimitError) \<and>
   (\<not> frequency_limit_reached (RecoverySentAt (usr w)) d (Now c 0) \<longrightarrow>
      draws (snd (sendPasswordRecovery c d r n w)) = Suc (draws w))"
  by (simp add: frequency_limit_reached_Some frequency_limit_reached_None
      sendConfirmation_limited sendPasswordRecovery_limited
      sendConfirmation_proceeds sendPasswordRecovery_proceeds)

theorem rate_gate_boundary_witness:
  "frequency_limit_reached (ConfirmationSentAt (usr example_world)) 60 (Now (example_collab 1059 (\<lambda>m. None)) 0) \<and>
   fst (sendConfirmation (example_collab 1059 (\<lambda>m. None)) 60 [] 6 example_world) = Some MaxFrequencyLimitError \<and>
   \<not> frequency_limit_reached (RecoverySentAt (usr example_world)) 60 (Now (example_collab 1061 (\<lambda>m. None)) 0) \<and>
   draws (snd (sendPasswordRecovery (example_collab 1061 (\<lambda>m. None)) 60 [] 6 example_world)) = Suc (draws example_world)"
proof -
  have blocked: "frequency_limit_reached (ConfirmationSentAt (usr example_world)) 60 (Now (example_collab 1059 (\<lambda>m. None)) 0)"
    by (simp add: frequency_limit_reached_def Before_def Add_def example_world_def example_user_def example_collab_def)
  have free: "\<not> frequency_limit_reached (RecoverySentAt (usr example_world)) 60 (Now (example_collab 1061 (\<lambda>m. None)) 0)"
    by (simp add: frequency_limit_reached_def Before_def Add_def example_world_def example_user_def example_collab_def)
  show ?thesis
    using blocked free
      rate_gate_boundary [of 60 1059 1000 example_world "example_collab 1059 (\<lambda>m. None)" "[]" 6]
      rate_gate_boundary [of 60 1061 1000 example_world "example_collab 1061 (\<lambda>m. None)" "[]" 6]
    by blast
qed

section \<open>Failure of the mail dispatch\<close>

lemma sendConfirmation_mailer_down:
  assumes "\<And>m. Mailer c m \<noteq> None"
  shows "fst (sendConfirmation c d r n w) \<noteq> None \<and> rows (snd (sendConfirmation c d r n w)) = rows w
     \<and> usr (snd (sendConfirmation c d r n w)) = usr w"
  by (simp add: assms sendConfirmation_def Let_def split: sum.splits option.splits prod.splits)

lemma sendPasswordRecovery_mailer_down:
  assumes "\<And>m. Mailer c m \<noteq> None"
  shows "fst (sendPasswordRecovery c d r n w) \<noteq> None \<and> rows (snd (sendPasswordRecovery c d r n w)) = rows w
     \<and> usr (snd (sendPasswordRecovery c d r n w)) = usr w"
  by (simp add: assms sendPasswordRecovery_def Let_def split: sum.splits option.splits prod.splits)

lemma sendMagicLink_mailer_down:
  assumes "\<And>m. Mailer c m \<noteq> None"
  shows "fst (sendMagicLink c d r n w) \<noteq> None \<and> rows (snd (sendMagicLink c d r n w)) = rows w
     \<and> usr (snd (sendMagicLink c d r n w)) = usr w"
  by (simp add: assms sendMagicLink_def Let_def split: sum.splits option.splits prod.splits)

lemma sendReauthenticationOtp_mailer_down:
  assumes "\<And>m. Mailer c m \<noteq> None"
  shows "fst (sendReauthenticationOtp c d n w) \<noteq> None \<and> rows (snd (sendReauthenticationOtp c d n w)) = rows w
     \<and> usr (snd (sendReauthenticationOtp c d n w)) = usr w"
  by (simp add: assms sendReauthenticationOtp_def Let_def split: sum.splits option.splits prod.splits)

text \<open>
  C4: in the confirmation, recovery, magic-link and reauthentication flows, when the mailer
  fails the call returns an error, no row behind \<open>tx\<close> is written, and the user's token
  field and sent-at timestamp of that flow hold what they held before the call (the token
  is put back to its old value, the timestamp is never set).
\<close>

theorem dispatch_failure_keeps_token:
  assumes "\<forall>m. Mailer c m \<noteq> None"
  shows "(let (err, w') = sendConfirmation c d r n w in
            err \<noteq> None \<and> rows w' = rows w \<and>
            ConfirmationToken (usr w') = ConfirmationToken (usr w) \<and>
            ConfirmationSentAt (usr w') = ConfirmationSentAt (usr w)) \<and>
         (let (err, w') = sendPasswordRecovery c d r n w in
            err \<noteq> None \<and> rows w' = rows w \<and>
            RecoveryToken (usr w') = RecoveryToken (usr w) \<and>
            RecoverySentAt (usr w') = RecoverySentAt (usr w)) \<and>
         (let (err, w') = sendMagicLink c d r n w in
            err \<noteq> None \<and> rows w' = rows w \<and>
            RecoveryToken (usr w') = RecoveryToken (usr w) \<and>
            RecoverySentAt (usr w') = RecoverySentAt (usr w)) \<and>
         (let (err, w') = sendReauthenticationOtp c d n w in
            err \<noteq> None \<and> rows w' = rows w \<and>
            ReauthenticationToken (usr w') = ReauthenticationToken (usr w) \<and>
            ReauthenticationSentAt (usr w') = ReauthenticationSentAt (usr w))"
proof -
  have down: "\<And>m. Mailer c m \<noteq> None" using assms by simp
  show ?thesis
    using sendConfirmation_mailer_down [OF down, of d r n w]
      sendPasswordRecovery_mailer_down [OF down, of d r n w]
      sendMagicLink_mailer_down [OF down, of d r n w]
      sendReauthenticationOtp_mailer_down [OF down, of d n w]
    by (simp add: split_beta)
qed

lemma example_mailer_down: "\<forall>m. Mailer (example_collab t (\<lambda>m. Some (Fault ''smtp: connection refused''))) m \<noteq> None"
  by (simp add: example_collab_def)

theorem dispatch_failure_keeps_token_witness:
  "(\<forall>m. Mailer (example_collab 2000 (\<lambda>m. Some (Fault ''smtp: connection refused''))) m \<noteq> None) \<and>
   fst (sendConfirmation (example_collab 2000 (\<lambda>m. Some (Fault ''smtp: connection refused''))) 60 [] 6 example_world)
     = Some (Wrap (Fault ''smtp: connection refused'') ''Error sending confirmation email'') \<and>
   rows (snd (sendConfirmation (example_collab 2000 (\<lambda>m. Some (Fault ''smtp: connection refused''))) 60 [] 6 example_world))
     = [example_user] \<and>
   ConfirmationToken (usr (snd (sendConfirmation (example_collab 2000 (\<lambda>m. Some (Fault ''smtp: connection refused''))) 60 [] 6 example_world)))
     = ''A'' \<and>
   ConfirmationSentAt (usr (snd (sendConfirmation (example_collab 2000 (\<lambda>m. Some (Fault ''smtp: connection refused''))) 60 [] 6 example_world)))
     = Some 1000"
proof -
  let ?c = "example_collab 2000 (\<lambda>m. Some (Fault ''smtp: connection refused''))"
  have down: "\<forall>m. Mailer ?c m \<noteq> None" by (rule example_mailer_down)
  have err: "fst (sendConfirmation ?c 60 [] 6 example_world)
     = Some (Wrap (Fault ''smtp: connection refused'') ''Error sending confirmation email'')"
    by (simp add: sendConfirmation_def example_collab_def example_world_def example_user_def
        frequency_limit_reached_def Before_def Add_def Let_def)
  have start: "rows example_world = [example_user] \<and> ConfirmationToken (usr example_world) = ''A''
     \<and> ConfirmationSentAt (usr example_world) = Some 1000"
    by (simp add: example_world_def example_user_def)
  show ?thesis
    using down err start dispatch_failure_keeps_token [OF down, of 60 "[]" 6 example_world]
    by (simp add: split_beta)
qed

section \<open>The frequency limit comes first, where there is one\<close>

lemma Rep_example_Sum224:
  "Rep_digest224 (example_Sum224 s) = take 28 (map of_char s @ replicate 28 0)"
  unfolding example_Sum224_def by (rule Abs_digest224_inverse) simp

lemma sendInvite_succeeds:
  assumes "GenerateOtp c (draws w) n = Inr otp" and "\<And>m. Mailer c m = None" and "UpdateOnly_fault c = None"
  shows "fst (sendInvite c r n w) = None \<and>
         draws (snd (sendInvite c r n w)) = Suc (draws w) \<and>
         outbox (snd (sendInvite c r n w)) =
           outbox w @ [InviteMail ((usr w)\<lparr>ConfirmationToken := hashed_token (Sum224 c) (GetEmail (usr w)) otp\<rparr>) otp r] \<and>
         ConfirmationSentAt (usr (snd (sendInvite c r n w))) = Some (Now c 0)"
  using assms by (simp add: sendInvite_def Let_def UpdateOnly_def errors_Wrap_def)

text \<open>
  C6, as stated, fails for the invite flow: \<open>sendInvite\<close> takes no minimum interval and
  tests no timestamp. With the last confirmation mail sent at 1000, an invite at 1001
  succeeds: a code is drawn, a mail is handed to the mailer, and the row gets a new token
  and the timestamp 1001.
\<close>

theorem invite_not_rate_limited_counterexample:
  "ConfirmationSentAt (usr example_world) = Some 1000 \<and>
   fst (sendInvite (example_collab 1001 (\<lambda>m. None)) [] 6 example_world) = None \<and>
   draws (snd (sendInvite (example_collab 1001 (\<lambda>m. None)) [] 6 example_world)) = 1 \<and>
   length (outbox (snd (sendInvite (example_collab 1001 (\<lambda>m. None)) [] 6 example_world))) = 1 \<and>
   map ConfirmationSentAt (rows (snd (sendInvite (example_collab 1001 (\<lambda>m. None)) [] 6 example_world))) = [Some 1001] \<and>
   map ConfirmationToken (rows (snd (sendInvite (example_collab 1001 (\<lambda>m. None)) [] 6 example_world))) \<noteq> [''A'']"
proof -
  have tok: "hashed_token example_Sum224 ''ann@example.org'' ''123456'' \<noteq> ''A''"
    using length_hashed_token [of example_Sum224 "''ann@example.org''" "''123456''"] by auto
  show ?thesis
    using tok
    by (simp add: sendInvite_def example_collab_def example_world_def example_user_def
        Let_def UpdateOnly_def errors_Wrap_def GetEmail_def)
qed

text \<open>
  C6 (amended): the confirmation, recovery, magic-link and reauthentication flows test the
  frequency limit first; when it is reached they return \<open>MaxFrequencyLimitError\<close> and
  leave everything as it was: no code drawn, no field of the user changed, no row written,
  no mail handed to the mailer. The invite flow has no such test: whenever the code is
  drawn, the mailer accepts the mail and the update is written, it succeeds, whatever the
  last-sent timestamp is.
\<close>

theorem rate_gate_first:
  "(frequency_limit_reached (ConfirmationSentAt (usr w)) d (Now c 0) \<longrightarrow>
      sendConfirmation c d r n w = (Some MaxFrequencyLimitError, w)) \<and>
   (frequency_limit_reached (RecoverySentAt (usr w)) d (Now c 0) \<longrightarrow>
      sendPasswordRecovery c d r n w = (Some MaxFrequencyLimitError, w)) \<and>
   (frequency_limit_reached (RecoverySentAt (usr w)) d (Now c 0) \<longrightarrow>
      sendMagicLink c d r n w = (Some MaxFrequencyLimitError, w)) \<and>
   (frequency_limit_reached (ReauthenticationSentAt (usr w)) d (Now c 0) \<longrightarrow>
      sendReauthenticationOtp c d n w = (Some MaxFrequencyLimitError, w)) \<and>
   (GenerateOtp c (draws w) n = Inr otp \<and> (\<forall>m. Mailer c m = None) \<and> UpdateOnly_fault c = None \<longrightarrow>
      fst (sendInvite c r n w) = None \<and>
      draws (snd (sendInvite c r n w)) = Suc (draws w) \<and>
      outbox (snd (sendInvite c r n w)) =
        outbox w @ [InviteMail ((usr w)\<lparr>ConfirmationToken := hashed_token (Sum224 c) (GetEmail (usr w)) otp\<rparr>) otp r] \<and>
      ConfirmationSentAt (usr (snd (sendInvite c r n w))) = Some (Now c 0))"
  using sendInvite_succeeds [of c w n otp r]
  by (simp add: sendConfirmation_limited sendPasswordRecovery_limited sendMagicLink_limited
      sendReauthenticationOtp_limited)

theorem rate_gate_first_witness:
  "frequency_limit_reached (ConfirmationSentAt (usr example_world)) 60 (Now (example_collab 1001 (\<lambda>m. None)) 0) \<and>
   sendConfirmation (example_collab 1001 (\<lambda>m. None)) 60 [] 6 example_world = (Some MaxFrequencyLimitError, example_world) \<and>
   sendPasswordRecovery (example_collab 1001 (\<lambda>m. None)) 60 [] 6 example_world = (Some MaxFrequencyLimitError, example_world) \<and>
   sendMagicLink (example_collab 1001 (\<lambda>m. None)) 60 [] 6 example_world = (Some MaxFrequencyLimitError, example_world) \<and>
   sendReauthenticationOtp (example_collab 1001 (\<lambda>m. None)) 60 6 example_world = (Some MaxFrequencyLimitError, example_world) \<and>
   GenerateOtp (example_collab 1001 (\<lambda>m. None)) (draws example_world) 6 = Inr ''123456'' \<and>
   (\<forall>m. Mailer (example_collab 1001 (\<lambda>m. None)) m = None) \<and>
   UpdateOnly_fault (example_collab 1001 (\<lambda>m. None)) = None \<and>
   fst (sendInvite (example_collab 1001 (\<lambda>m. None)) [] 6 example_world) = None \<and>
   ConfirmationSentAt (usr (snd (sendInvite (example_collab 1001 (\<lambda>m. None)) [] 6 example_world))) = Some 1001"
proof -
  let ?c = "example_collab 1001 (\<lambda>m. None)"
  have lim: "frequency_limit_reached (ConfirmationSentAt (usr example_world)) 60 (Now ?c 0)"
    "frequency_limit_reached (RecoverySentAt (usr example_world)) 60 (Now ?c 0)"
    "frequency_limit_reached (ReauthenticationSentAt (usr example_world)) 60 (Now ?c 0)"
    by (simp_all add: frequency_limit_reached_def Before_def Add_def example_world_def example_user_def example_collab_def)
  have ok: "GenerateOtp ?c (draws example_world) 6 = Inr ''123456''" "\<forall>m. Mailer ?c m = None"
    "UpdateOnly_fault ?c = None" "Now ?c 0 = 1001"
    by (simp_all add: example_collab_def)
  show ?thesis
    using lim ok rate_gate_first [of example_world 60 ?c "[]" 6 "''123456''"]
    by simp
qed

section \<open>One claim per session and method\<close>

lemma conflicts_key: "conflicts new c \<longleftrightarrow> claim_key c = claim_key new"
  by (auto simp: conflicts_def claim_key_def)

lemma claim_key_touch: "claim_key (c\<lparr>claim_UpdatedAt := t\<rparr>) = claim_key c"
  by (simp add: claim_key_def)

lemma keys_touch:
  "map claim_key (map (\<lambda>c. if conflicts new c then c\<lparr>claim_UpdatedAt := t\<rparr> else c) cs) = map claim_key cs"
  by (induction cs) (simp_all add: claim_key_touch)

lemma upsert_distinct:
  assumes "distinct (map claim_key cs)"
  shows "distinct (map claim_key (insert_on_conflict_update new t cs))"
proof (cases "list_ex (conflicts new) cs")
  case True
  then show ?thesis
    unfolding insert_on_conflict_update_def using assms by (simp only: if_True keys_touch)
next
  case False
  then have "claim_key new \<notin> set (map claim_key cs)"
    by (auto simp: list_ex_iff conflicts_key)
  with False assms show ?thesis by (simp add: insert_on_conflict_update_def)
qed

lemma count_le_one:
  "distinct (map claim_key cs) \<Longrightarrow> length (filter (\<lambda>c. claim_key c = K) cs) \<le> 1"
proof (induction cs)
  case Nil
  then show ?case by simp
next
  case (Cons c cs)
  show ?case
  proof (cases "claim_key c = K")
    case True
    from Cons.prems have "claim_key c \<notin> claim_key ` set cs" by simp
    with True have "\<And>x. x \<in> set cs \<Longrightarrow> claim_key x \<noteq> K" by blast
    then have "filter (\<lambda>c. claim_key c = K) cs = []"
      by (simp add: filter_empty_conv)
    with True show ?thesis by simp
  next
    case False
    with Cons show ?thesis by simp
  qed
qed

lemma filter_touch:
  "filter (\<lambda>c. claim_key c = K) (map (\<lambda>c. if conflicts new c then c\<lparr>claim_UpdatedAt := t\<rparr> else c) cs)
   = map (\<lambda>c. if conflicts new c then c\<lparr>claim_UpdatedAt := t\<rparr> else c) (filter (\<lambda>c. claim_key c = K) cs)"
  by (induction cs) (simp_all add: claim_key_touch)

lemma upsert_count_mono:
  "length (filter (\<lambda>c. claim_key c = K) cs) \<le> length (filter (\<lambda>c. claim_key c = K) (insert_on_conflict_update new t cs))"
  by (simp add: insert_on_conflict_update_def filter_touch)

lemma upsert_has_row:
  "0 < length (filter (\<lambda>c. claim_key c = claim_key new) (insert_on_conflict_update new t cs))"
proof (cases "list_ex (conflicts new) cs")
  case True
  then obtain c where "c \<in> set cs" "claim_key c = claim_key new"
    by (auto simp: list_ex_iff conflicts_key)
  then have "filter (\<lambda>c. claim_key c = claim_key new) cs \<noteq> []"
    by (auto simp: filter_empty_conv)
  with True show ?thesis by (simp add: insert_on_conflict_update_def filter_touch)
next
  case False
  then show ?thesis by (simp add: insert_on_conflict_update_def)
qed

lemma AddClaimToSession_distinct:
  "distinct (map claim_key cs) \<Longrightarrow> distinct (map claim_key (snd (AddClaimToSession k s m cs)))"
  by (simp add: AddClaimToSession_def upsert_distinct split: sum.splits option.splits)

lemma AddClaimToSession_count_mono:
  "length (claims_of s m cs) \<le> length (claims_of s m (snd (AddClaimToSession k s m cs)))"
  by (simp add: AddClaimToSession_def claims_of_def upsert_count_mono split: sum.splits option.splits)

lemma AddClaimToSession_has_row:
  assumes "succeeds k"
  shows "0 < length (claims_of s m (snd (AddClaimToSession k s m cs)))"
proof -
  from assms obtain i where i: "NewV4 k = Inr i" "Exec_fault k = None"
    by (auto simp: succeeds_def split: sum.splits)
  let ?new = "\<lparr>claim_ID = i, claim_SessionID = session_ID s,
                   claim_CreatedAt = currentTime k, claim_UpdatedAt = currentTime k,
                   claim_AuthenticationMethod = AuthenticationMethod_String m\<rparr>"
  have "claim_key ?new = (session_ID s, AuthenticationMethod_String m)" by (simp add: claim_key_def)
  then show ?thesis
    using upsert_has_row [of ?new "currentTime k" cs] i
    by (simp add: AddClaimToSession_def claims_of_def)
qed

lemma calls_distinct:
  "distinct (map claim_key cs) \<Longrightarrow> distinct (map claim_key (AddClaimToSession_calls ks s m cs))"
  by (induction ks arbitrary: cs) (simp_all add: AddClaimToSession_distinct)

lemma calls_count_mono:
  "length (claims_of s m cs) \<le> length (claims_of s m (AddClaimToSession_calls ks s m cs))"
proof (induction ks arbitrary: cs)
  case Nil
  then show ?case by simp
next
  case (Cons k ks)
  have "length (claims_of s m cs) \<le> length (claims_of s m (snd (AddClaimToSession k s m cs)))"
    by (rule AddClaimToSession_count_mono)
  also have "\<dots> \<le> length (claims_of s m (AddClaimToSession_calls ks s m (snd (AddClaimToSession k s m cs))))"
    by (rule Cons.IH)
  finally show ?case by simp
qed

lemma calls_has_row:
  "list_ex succeeds ks \<Longrightarrow> 0 < length (claims_of s m (AddClaimToSession_calls ks s m cs))"
proof (induction ks arbitrary: cs)
  case Nil
  then show ?case by simp
next
  case (Cons k ks)
  show ?case
  proof (cases "succeeds k")
    case True
    then have "0 < length (claims_of s m (snd (AddClaimToSession k s m cs)))"
      by (rule AddClaimToSession_has_row)
    also have "\<dots> \<le> length (claims_of s m (AddClaimToSession_calls ks s m (snd (AddClaimToSession k s m cs))))"
      by (rule calls_count_mono)
    finally show ?thesis by simp
  next
    case False
    with Cons.prems have "list_ex succeeds ks" by simp
    then show ?thesis using Cons.IH by simp
  qed
qed

lemma calls_one_row:
  assumes "distinct (map claim_key cs)" and "list_ex succeeds ks"
  shows "length (claims_of s m (AddClaimToSession_calls ks s m cs)) = 1"
proof -
  have "length (claims_of s m (AddClaimToSession_calls ks s m cs)) \<le> 1"
    unfolding claims_of_def by (rule count_le_one) (rule calls_distinct [OF assms(1)])
  moreover have "0 < length (claims_of s m (AddClaimToSession_calls ks s m cs))"
    by (rule calls_has_row [OF assms(2)])
  ultimately show ?thesis by arith
qed

lemma first_use_inserts:
  assumes "NewV4 k = Inr i" and "Exec_fault k = None" and "claims_of s m cs = []"
  shows "AddClaimToSession k s m cs =
     (None, cs @ [\<lparr>claim_ID = i, claim_SessionID = session_ID s,
                   claim_CreatedAt = currentTime k, claim_UpdatedAt = currentTime k,
                   claim_AuthenticationMethod = AuthenticationMethod_String m\<rparr>])"
proof -
  let ?new = "\<lparr>claim_ID = i, claim_SessionID = session_ID s,
                   claim_CreatedAt = currentTime k, claim_UpdatedAt = currentTime k,
                   claim_AuthenticationMethod = AuthenticationMethod_String m\<rparr>"
  have "\<not> list_ex (conflicts ?new) cs"
    using assms(3) by (auto simp: claims_of_def filter_empty_conv list_ex_iff conflicts_key claim_key_def)
  then show ?thesis using assms(1,2)
    by (simp add: AddClaimToSession_def insert_on_conflict_update_def)
qed

lemma later_use_touches:
  assumes "NewV4 k = Inr i" and "Exec_fault k = None" and "claims_of s m cs \<noteq> []"
  shows "AddClaimToSession k s m cs =
     (None, map (\<lambda>c. if claim_key c = (session_ID s, AuthenticationMethod_String m)
                     then c\<lparr>claim_UpdatedAt := currentTime k\<rparr> else c) cs)"
proof -
  let ?new = "\<lparr>claim_ID = i, claim_SessionID = session_ID s,
                   claim_CreatedAt = currentTime k, claim_UpdatedAt = currentTime k,
                   claim_AuthenticationMethod = AuthenticationMethod_String m\<rparr>"
  have "list_ex (conflicts ?new) cs"
    using assms(3) by (auto simp: claims_of_def filter_empty_conv list_ex_iff conflicts_key claim_key_def)
  moreover have "\<And>c. conflicts ?new c \<longleftrightarrow> claim_key c = (session_ID s, AuthenticationMethod_String m)"
    by (simp add: conflicts_key claim_key_def)
  ultimately show ?thesis using assms(1,2)
    by (simp add: AddClaimToSession_def insert_on_conflict_update_def)
qed

text \<open>
  C3: on a table that has at most one claim per (session, method), any sequence of calls
  of \<open>AddClaimToSession\<close> for one session and method keeps at most one claim per pair, and
  as soon as one call has succeeded there is exactly one claim of that pair. A successful
  call on a table without a claim of the pair appends one row, created and updated at the
  time of the call; a successful call on a table with such a claim inserts nothing and
  changes only the \<open>updated_at\<close> of that claim, to the time of the call.
\<close>

theorem one_claim_per_session_and_method:
  assumes "distinct (map claim_key cs)"
  shows "distinct (map claim_key (AddClaimToSession_calls ks s m cs)) \<and>
         (list_ex succeeds ks \<longrightarrow> length (claims_of s m (AddClaimToSession_calls ks s m cs)) = 1) \<and>
         (NewV4 k = Inr i \<and> Exec_fault k = None \<and> claims_of s m cs = [] \<longrightarrow>
            AddClaimToSession k s m cs =
              (None, cs @ [\<lparr>claim_ID = i, claim_SessionID = session_ID s,
                            claim_CreatedAt = currentTime k, claim_UpdatedAt = currentTime k,
                            claim_AuthenticationMethod = AuthenticationMethod_String m\<rparr>])) \<and>
         (NewV4 k = Inr i \<and> Exec_fault k = None \<and> claims_of s m cs \<noteq> [] \<longrightarrow>
            AddClaimToSession k s m cs =
              (None, map (\<lambda>c. if claim_key c = (session_ID s, AuthenticationMethod_String m)
                              then c\<lparr>claim_UpdatedAt := currentTime k\<rparr> else c) cs))"
  using calls_distinct [OF assms, of ks s m] calls_one_row [OF assms, of ks s m]
    first_use_inserts [of k i s m cs] later_use_touches [of k i s m cs]
  by blast

theorem one_claim_per_session_and_method_witness:
  "distinct (map claim_key []) \<and>
   list_ex succeeds [example_call 201 10, example_call 202 20, example_call 203 30] \<and>
   AddClaimToSession_calls [example_call 201 10, example_call 202 20, example_call 203 30]
       (example_session 11 None ''aal1'') TOTPSignIn [] =
     [example_claim 201 11 10 30 ''totp''] \<and>
   length (claims_of (example_session 11 None ''aal1'') TOTPSignIn
     (AddClaimToSession_calls [example_call 201 10, example_call 202 20, example_call 203 30]
        (example_session 11 None ''aal1'') TOTPSignIn [])) = 1 \<and>
   AddClaimToSession (example_call 201 10) (example_session 11 None ''aal1'') TOTPSignIn [] =
     (None, [example_claim 201 11 10 10 ''totp'']) \<and>
   AddClaimToSession (example_call 202 20) (example_session 11 None ''aal1'') TOTPSignIn
       [example_claim 201 11 10 10 ''totp''] =
     (None, [example_claim 201 11 10 20 ''totp''])"
proof -
  let ?ks = "[example_call 201 10, example_call 202 20, example_call 203 30]"
  let ?s = "example_session 11 None ''aal1''"
  have d: "distinct (map claim_key [])" by simp
  have ok: "list_ex succeeds ?ks" by (simp add: succeeds_def example_call_def)
  have run: "AddClaimToSession_calls ?ks ?s TOTPSignIn [] = [example_claim 201 11 10 30 ''totp'']"
    by (simp add: AddClaimToSession_def insert_on_conflict_update_def conflicts_def
        example_call_def example_session_def example_claim_def
        AuthenticationMethod_String_def TOTPSignIn_def OAuth_def PasswordGrant_def OTP_def)
  have one: "AddClaimToSession (example_call 201 10) ?s TOTPSignIn [] = (None, [example_claim 201 11 10 10 ''totp''])"
    by (simp add: AddClaimToSession_def insert_on_conflict_update_def conflicts_def
        example_call_def example_session_def example_claim_def
        AuthenticationMethod_String_def TOTPSignIn_def OAuth_def PasswordGrant_def OTP_def)
  have two: "AddClaimToSession (example_call 202 20) ?s TOTPSignIn [example_claim 201 11 10 10 ''totp''] =
     (None, [example_claim 201 11 10 20 ''totp''])"
    by (simp add: AddClaimToSession_def insert_on_conflict_update_def conflicts_def
        example_call_def example_session_def example_claim_def
        AuthenticationMethod_String_def TOTPSignIn_def OAuth_def PasswordGrant_def OTP_def)
  show ?thesis
    using d ok run one two one_claim_per_session_and_method [OF d, of ?ks ?s TOTPSignIn]
    by simp
qed

section \<open>Looking up a factor by its id\<close>

text \<open>
  C7: \<open>findFactor\<close> tells a missing row (\<open>FactorNotFoundError\<close>) from any other failure
  (wrapped as "Database error finding factor"), but \<open>FindFactorByFactorID\<close> replaces every
  error of \<open>findFactor\<close> by \<open>FactorNotFoundError\<close>: a lookup of an existing factor that
  fails with a connection error is reported as "not found".
\<close>

theorem storage_fault_reported_as_not_found:
  "factor_ID example_factor = 1 \<and>
   findFactor (Some (Fault ''connection reset by peer'')) (\<lambda>f. factor_ID f = 1) [example_factor] =
     Inl (Wrap (Fault ''connection reset by peer'') ''Database error finding factor'') \<and>
   FindFactorByFactorID (Some (Fault ''connection reset by peer'')) 1 [example_factor] =
     Inl FactorNotFoundError \<and>
   FindFactorByFactorID None 1 [example_factor] = Inr example_factor \<and>
   FindFactorByFactorID None 2 [example_factor] = Inl FactorNotFoundError"
  by (simp add: FindFactorByFactorID_def findFactor_def First_def example_factor_def)

section \<open>Downgrade: complete on success, stopped at the first failure\<close>

lemma delete_claims_result:
  "delete_claims fault i T ss cs = (None, cs') \<Longrightarrow>
   cs' = filter (\<lambda>c. \<not> (claim_AuthenticationMethod c = T \<and> claim_SessionID c \<in> session_ID ` set ss)) cs"
proof (induction ss arbitrary: i cs)
  case Nil
  then show ?case by simp
next
  case (Cons s ss)
  from Cons.prems have ok: "fault i = None"
    and rest: "delete_claims fault (Suc i) T ss (delete_claim (session_ID s) T cs) = (None, cs')"
    by (auto split: option.splits)
  from Cons.IH [OF rest]
  have "cs' = filter (\<lambda>c. \<not> (claim_AuthenticationMethod c = T \<and> claim_SessionID c \<in> session_ID ` set ss))
                (delete_claim (session_ID s) T cs)" .
  also have "\<dots> = filter (\<lambda>c. \<not> (claim_AuthenticationMethod c = T \<and> claim_SessionID c \<in> session_ID ` set (s # ss))) cs"
    unfolding delete_claim_def filter_filter by (rule filter_cong) auto
  finally show ?case .
qed

lemma delete_claims_fails:
  "j < length ss \<Longrightarrow> fault (i + j) \<noteq> None \<Longrightarrow> fst (delete_claims fault i T ss cs) \<noteq> None"
proof (induction ss arbitrary: i j cs)
  case Nil
  then show ?case by simp
next
  case (Cons s ss)
  show ?case
  proof (cases "fault i")
    case (Some e)
    then show ?thesis by simp
  next
    case None
    with Cons.prems have "j \<noteq> 0" by (cases j) auto
    then obtain j' where j: "j = Suc j'" by (cases j) auto
    with Cons.prems have "j' < length ss" "fault (Suc i + j') \<noteq> None" by simp_all
    from Cons.IH [OF this] None show ?thesis by simp
  qed
qed

lemma Downgrade_sessions_on_error:
  "fst (DowngradeSessionsToAAL1 fault f db) \<noteq> None \<Longrightarrow>
   sessions (snd (DowngradeSessionsToAAL1 fault f db)) = sessions db"
  by (auto simp: DowngradeSessionsToAAL1_def FindSessionsByFactorID_def updateFactorAssociatedSessions_def
      split: option.splits sum.splits prod.splits)

lemma Downgrade_fails:
  assumes "i \<le> Suc (length (filter (\<lambda>s. session_FactorID s = Some (factor_ID f)) (sessions db)))"
    and "fault i \<noteq> None"
  shows "fst (DowngradeSessionsToAAL1 fault f db) \<noteq> None"
proof (cases "fault 0")
  case (Some e)
  then show ?thesis by (simp add: DowngradeSessionsToAAL1_def FindSessionsByFactorID_def)
next
  case None
  let ?found = "filter (\<lambda>s. session_FactorID s = Some (factor_ID f)) (sessions db)"
  show ?thesis
  proof (cases "fst (delete_claims fault 1 (FactorType f) ?found (claims db))")
    case (Some e)
    with None show ?thesis
      by (auto simp: DowngradeSessionsToAAL1_def FindSessionsByFactorID_def split: prod.splits option.splits)
  next
    case del: None
    have "i = Suc (length ?found)"
    proof (rule ccontr)
      assume "i \<noteq> Suc (length ?found)"
      with assms(1) have "i \<le> length ?found" by simp
      moreover from None assms(2) have "i \<noteq> 0" by (cases i) auto
      ultimately obtain j where "i = 1 + j" "j < length ?found" by (cases i) auto
      with assms(2) have "fst (delete_claims fault 1 (FactorType f) ?found (claims db)) \<noteq> None"
        using delete_claims_fails [of j ?found fault 1] by simp
      with del show False by simp
    qed
    with assms(2) None del show ?thesis
      by (auto simp: DowngradeSessionsToAAL1_def FindSessionsByFactorID_def updateFactorAssociatedSessions_def
          split: prod.splits option.splits)
  qed
qed

lemma Downgrade_success:
  assumes "DowngradeSessionsToAAL1 fault f db = (None, db')"
  shows "claims db' = filter (\<lambda>c. \<not> (claim_AuthenticationMethod c = FactorType f \<and>
             claim_SessionID c \<in> session_ID ` {s \<in> set (sessions db). session_FactorID s = Some (factor_ID f)})) (claims db)"
    and "sessions db' = map (\<lambda>s. if session_UserID s = factor_UserID f \<and> session_FactorID s = Some (factor_ID f)
                         then s\<lparr>session_AAL := AAL1_String\<rparr> else s) (sessions db)"
proof -
  let ?found = "filter (\<lambda>s. session_FactorID s = Some (factor_ID f)) (sessions db)"
  from assms obtain cs where
    del: "delete_claims fault 1 (FactorType f) ?found (claims db) = (None, cs)" and
    upd: "updateFactorAssociatedSessions (fault (Suc (length ?found))) (factor_UserID f) (factor_ID f) AAL1_String (db\<lparr>claims := cs\<rparr>) = (None, db')"
    by (auto simp: DowngradeSessionsToAAL1_def FindSessionsByFactorID_def split: option.splits prod.splits)
  from upd have db': "db' = db\<lparr>claims := cs, sessions := map (\<lambda>s. if session_UserID s = factor_UserID f \<and> session_FactorID s = Some (factor_ID f)
                         then s\<lparr>session_AAL := AAL1_String\<rparr> else s) (sessions db)\<rparr>"
    by (auto simp: updateFactorAssociatedSessions_def split: option.splits)
  from delete_claims_result [OF del] db'
  show "claims db' = filter (\<lambda>c. \<not> (claim_AuthenticationMethod c = FactorType f \<and>
             claim_SessionID c \<in> session_ID ` {s \<in> set (sessions db). session_FactorID s = Some (factor_ID f)})) (claims db)"
    by simp
  from db' show "sessions db' = map (\<lambda>s. if session_UserID s = factor_UserID f \<and> session_FactorID s = Some (factor_ID f)
                         then s\<lparr>session_AAL := AAL1_String\<rparr> else s) (sessions db)"
    by simp
qed

text \<open>
  C1: when \<open>DowngradeSessionsToAAL1\<close> returns no error, no session returned by the query
  "sessions by factor id" has a claim whose method is the factor's type, every session of
  the factor's user that is associated with the factor has the baseline level, claims of
  other methods are all still there, and the sessions table differs from the old one in
  those levels only.
\<close>

theorem downgrade_completeness:
  assumes "DowngradeSessionsToAAL1 fault f db = (None, db')"
    and "FindSessionsByFactorID None (factor_ID f) db = Inr found"
  shows "(\<forall>s \<in> set found.
            \<not> list_ex (\<lambda>c. claim_SessionID c = session_ID s \<and> claim_AuthenticationMethod c = FactorType f) (claims db')) \<and>
         (\<forall>s \<in> set (sessions db').
            session_UserID s = factor_UserID f \<and> session_FactorID s = Some (factor_ID f) \<longrightarrow> session_AAL s = AAL1_String) \<and>
         (\<forall>c \<in> set (claims db). claim_AuthenticationMethod c \<noteq> FactorType f \<longrightarrow> c \<in> set (claims db')) \<and>
         sessions db' = map (\<lambda>s. if session_UserID s = factor_UserID f \<and> session_FactorID s = Some (factor_ID f)
                                  then s\<lparr>session_AAL := AAL1_String\<rparr> else s) (sessions db)"
proof -
  from assms(2) have found: "set found = {s \<in> set (sessions db). session_FactorID s = Some (factor_ID f)}"
    by (auto simp: FindSessionsByFactorID_def)
  note cl = Downgrade_success(1) [OF assms(1)] and se = Downgrade_success(2) [OF assms(1)]
  have a: "\<forall>s \<in> set found.
            \<not> list_ex (\<lambda>c. claim_SessionID c = session_ID s \<and> claim_AuthenticationMethod c = FactorType f) (claims db')"
    unfolding cl found [symmetric] by (auto simp: list_ex_iff)
  have b: "\<forall>s \<in> set (sessions db').
            session_UserID s = factor_UserID f \<and> session_FactorID s = Some (factor_ID f) \<longrightarrow> session_AAL s = AAL1_String"
    unfolding se by auto
  have c: "\<forall>c \<in> set (claims db). claim_AuthenticationMethod c \<noteq> FactorType f \<longrightarrow> c \<in> set (claims db')"
    unfolding cl by simp
  from a b c se show ?thesis by blast
qed

lemma example_downgrade:
  "DowngradeSessionsToAAL1 (\<lambda>i. None) example_factor example_tables =
     (None,
      \<lparr>sessions = [example_session 11 (Some 1) ''aal1'', example_session 12 (Some 1) ''aal1'',
                  example_session 13 None ''aal1''],
       claims = [example_claim 101 11 5 5 ''password'', example_claim 104 13 8 8 ''password'']\<rparr>)"
  by (simp add: DowngradeSessionsToAAL1_def FindSessionsByFactorID_def updateFactorAssociatedSessions_def
      delete_claim_def AAL1_String_def example_factor_def example_tables_def example_session_def example_claim_def)

lemma example_found:
  "FindSessionsByFactorID None (factor_ID example_factor) example_tables =
     Inr [example_session 11 (Some 1) ''aal2'', example_session 12 (Some 1) ''aal2'']"
  by (simp add: FindSessionsByFactorID_def example_factor_def example_tables_def example_session_def)

theorem downgrade_completeness_witness:
  "DowngradeSessionsToAAL1 (\<lambda>i. None) example_factor example_tables =
     (None,
      \<lparr>sessions = [example_session 11 (Some 1) ''aal1'', example_session 12 (Some 1) ''aal1'',
                  example_session 13 None ''aal1''],
       claims = [example_claim 101 11 5 5 ''password'', example_claim 104 13 8 8 ''password'']\<rparr>) \<and>
   FindSessionsByFactorID None (factor_ID example_factor) example_tables =
     Inr [example_session 11 (Some 1) ''aal2'', example_session 12 (Some 1) ''aal2''] \<and>
   \<not> list_ex (\<lambda>c. claim_SessionID c = session_ID (example_session 11 (Some 1) ''aal2'') \<and>
                  claim_AuthenticationMethod c = FactorType example_factor)
       [example_claim 101 11 5 5 ''password'', example_claim 104 13 8 8 ''password''] \<and>
   \<not> list_ex (\<lambda>c. claim_SessionID c = session_ID (example_session 12 (Some 1) ''aal2'') \<and>
                  claim_AuthenticationMethod c = FactorType example_factor)
       [example_claim 101 11 5 5 ''password'', example_claim 104 13 8 8 ''password'']"
  using example_downgrade example_found
    downgrade_completeness [OF example_downgrade example_found]
  by simp

lemma delete_claims_all:
  "(\<And>k. k < length ss \<Longrightarrow> fault (i + k) = None) \<Longrightarrow>
   delete_claims fault i T ss cs =
     (None, filter (\<lambda>c. \<not> (claim_AuthenticationMethod c = T \<and> claim_SessionID c \<in> session_ID ` set ss)) cs)"
proof (induction ss arbitrary: i cs)
  case Nil
  then show ?case by simp
next
  case (Cons s ss)
  have here: "fault i = None" using Cons.prems [of 0] by simp
  have "delete_claims fault (Suc i) T ss (delete_claim (session_ID s) T cs) =
     (None, filter (\<lambda>c. \<not> (claim_AuthenticationMethod c = T \<and> claim_SessionID c \<in> session_ID ` set ss))
              (delete_claim (session_ID s) T cs))"
  proof (rule Cons.IH)
    fix k assume "k < length ss"
    then show "fault (Suc i + k) = None" using Cons.prems [of "Suc k"] by simp
  qed
  moreover have "filter (\<lambda>c. \<not> (claim_AuthenticationMethod c = T \<and> claim_SessionID c \<in> session_ID ` set ss))
              (delete_claim (session_ID s) T cs) =
     filter (\<lambda>c. \<not> (claim_AuthenticationMethod c = T \<and> claim_SessionID c \<in> session_ID ` set (s # ss))) cs"
    unfolding delete_claim_def filter_filter by (rule filter_cong) auto
  ultimately show ?case using here by simp
qed

lemma delete_claims_first_failure:
  "j < length ss \<Longrightarrow> fault (i + j) = Some e \<Longrightarrow> (\<And>k. k < j \<Longrightarrow> fault (i + k) = None) \<Longrightarrow>
   delete_claims fault i T ss cs =
     (Some e, filter (\<lambda>c. \<not> (claim_AuthenticationMethod c = T \<and> claim_SessionID c \<in> session_ID ` set (take j ss))) cs)"
proof (induction ss arbitrary: i j cs)
  case Nil
  then show ?case by simp
next
  case (Cons s ss)
  show ?case
  proof (cases j)
    case 0
    with Cons.prems(2) show ?thesis by simp
  next
    case (Suc j')
    have here: "fault i = None" using Cons.prems(3) [of 0] Suc by simp
    have "delete_claims fault (Suc i) T ss (delete_claim (session_ID s) T cs) =
       (Some e, filter (\<lambda>c. \<not> (claim_AuthenticationMethod c = T \<and> claim_SessionID c \<in> session_ID ` set (take j' ss)))
              (delete_claim (session_ID s) T cs))"
    proof (rule Cons.IH)
      show "j' < length ss" using Cons.prems(1) Suc by simp
      show "fault (Suc i + j') = Some e" using Cons.prems(2) Suc by simp
      fix k assume "k < j'"
      then show "fault (Suc i + k) = None" using Cons.prems(3) [of "Suc k"] Suc by simp
    qed
    moreover have "filter (\<lambda>c. \<not> (claim_AuthenticationMethod c = T \<and> claim_SessionID c \<in> session_ID ` set (take j' ss)))
              (delete_claim (session_ID s) T cs) =
       filter (\<lambda>c. \<not> (claim_AuthenticationMethod c = T \<and> claim_SessionID c \<in> session_ID ` set (take j (s # ss)))) cs"
      unfolding delete_claim_def filter_filter Suc by (rule filter_cong) auto
    ultimately show ?thesis using here by simp
  qed
qed

lemma Downgrade_first_failure:
  assumes found: "FindSessionsByFactorID None (factor_ID f) db = Inr found"
    and i: "i \<le> Suc (length found)" and e: "fault i = Some e"
    and first: "\<And>j. j < i \<Longrightarrow> fault j = None"
  shows "DowngradeSessionsToAAL1 fault f db =
     (Some e,
      db\<lparr>claims := filter (\<lambda>c. \<not> (claim_AuthenticationMethod c = FactorType f \<and>
                                   claim_SessionID c \<in> session_ID ` set (take (i - 1) found))) (claims db)\<rparr>)"
proof (cases i)
  case 0
  with e show ?thesis
    by (simp add: DowngradeSessionsToAAL1_def FindSessionsByFactorID_def)
next
  case (Suc j)
  from found have fd: "found = filter (\<lambda>s. session_FactorID s = Some (factor_ID f)) (sessions db)"
    by (simp add: FindSessionsByFactorID_def)
  have q: "fault 0 = None" using first [of 0] Suc by simp
  then have fq: "FindSessionsByFactorID (fault 0) (factor_ID f) db = Inr found"
    using found by simp
  show ?thesis
  proof (cases "j < length found")
    case True
    have "delete_claims fault 1 (FactorType f) found (claims db) =
      (Some e, filter (\<lambda>c. \<not> (claim_AuthenticationMethod c = FactorType f \<and>
                                   claim_SessionID c \<in> session_ID ` set (take j found))) (claims db))"
    proof (rule delete_claims_first_failure [OF True])
      show "fault (1 + j) = Some e" using e Suc by simp
      fix k assume "k < j"
      then show "fault (1 + k) = None" using first [of "Suc k"] Suc by simp
    qed
    with fq Suc show ?thesis by (simp add: DowngradeSessionsToAAL1_def)
  next
    case False
    with i Suc have j: "j = length found" by simp
    have "delete_claims fault 1 (FactorType f) found (claims db) =
      (None, filter (\<lambda>c. \<not> (claim_AuthenticationMethod c = FactorType f \<and>
                                   claim_SessionID c \<in> session_ID ` set found)) (claims db))"
    proof (rule delete_claims_all)
      fix k assume "k < length found"
      then show "fault (1 + k) = None" using first [of "Suc k"] Suc j by simp
    qed
    moreover have "fault (Suc (length found)) = Some e" using e Suc j by simp
    ultimately show ?thesis using fq Suc j
      by (simp add: DowngradeSessionsToAAL1_def updateFactorAssociatedSessions_def)
  qed
qed

text \<open>
  C2, as stated, fails: the function returns at the first statement that fails and undoes
  nothing. With two sessions bound to the factor and the second deletion failing, it
  returns the error after the TOTP claim of the first session (claim 102) has been deleted
  on \<open>tx\<close>; the claim of the second session (claim 103) is still there.
\<close>

theorem downgrade_partial_counterexample:
  "FindSessionsByFactorID None (factor_ID example_factor) example_tables =
     Inr [example_session 11 (Some 1) ''aal2'', example_session 12 (Some 1) ''aal2''] \<and>
   claims example_tables =
     [example_claim 101 11 5 5 ''password'', example_claim 102 11 6 6 ''totp'',
      example_claim 103 12 7 7 ''totp'', example_claim 104 13 8 8 ''password''] \<and>
   DowngradeSessionsToAAL1 (\<lambda>i. if i = 2 then Some (Fault ''deadlock detected'') else None) example_factor example_tables =
     (Some (Fault ''deadlock detected''),
      example_tables\<lparr>claims := [example_claim 101 11 5 5 ''password'', example_claim 103 12 7 7 ''totp'',
                                example_claim 104 13 8 8 ''password'']\<rparr>)"
  by (simp add: DowngradeSessionsToAAL1_def FindSessionsByFactorID_def updateFactorAssociatedSessions_def
      delete_claim_def AAL1_String_def example_factor_def example_tables_def example_session_def example_claim_def)

text \<open>
  C2 (amended): when a statement of \<open>DowngradeSessionsToAAL1\<close> fails (the query, one of
  the deletions, or the final update), the call returns an error and has changed no
  session's level. It returns the error of the first failing statement and leaves \<open>tx\<close>
  as it was but for the claims of the factor's type of the sessions before the failing
  one, which it has deleted and does not put back: nothing at all is changed when the
  query or the first deletion fails, and the claims of all the sessions are gone when
  only the final update fails.
\<close>

theorem downgrade_stops_at_first_failure:
  assumes "FindSessionsByFactorID None (factor_ID f) db = Inr found"
    and "i \<le> Suc (length found)" and "fault i = Some e"
  shows "fst (DowngradeSessionsToAAL1 fault f db) \<noteq> None \<and>
         sessions (snd (DowngradeSessionsToAAL1 fault f db)) = sessions db \<and>
         ((\<forall>j<i. fault j = None) \<longrightarrow>
            DowngradeSessionsToAAL1 fault f db =
              (Some e,
               db\<lparr>claims := filter (\<lambda>c. \<not> (claim_AuthenticationMethod c = FactorType f \<and>
                                            claim_SessionID c \<in> session_ID ` set (take (i - 1) found)))
                                  (claims db)\<rparr>)) \<and>
         ((\<forall>j<i. fault j = None) \<and> i \<le> 1 \<longrightarrow> DowngradeSessionsToAAL1 fault f db = (Some e, db))"
proof -
  from assms(1) have "found = filter (\<lambda>s. session_FactorID s = Some (factor_ID f)) (sessions db)"
    by (simp add: FindSessionsByFactorID_def)
  with assms(2,3) have err: "fst (DowngradeSessionsToAAL1 fault f db) \<noteq> None"
    using Downgrade_fails [of i f db fault] by simp
  have exact: "DowngradeSessionsToAAL1 fault f db =
              (Some e,
               db\<lparr>claims := filter (\<lambda>c. \<not> (claim_AuthenticationMethod c = FactorType f \<and>
                                            claim_SessionID c \<in> session_ID ` set (take (i - 1) found)))
                                  (claims db)\<rparr>)"
    if "\<forall>j<i. fault j = None"
    using Downgrade_first_failure [of f db found i fault e] assms that by blast
  have none: "DowngradeSessionsToAAL1 fault f db = (Some e, db)"
    if "(\<forall>j<i. fault j = None) \<and> i \<le> 1"
  proof -
    from that have "take (i - 1) found = []" by simp
    with exact that show ?thesis by simp
  qed
  from err Downgrade_sessions_on_error [OF err] exact none show ?thesis by blast
qed

theorem downgrade_stops_at_first_failure_witness:
  "FindSessionsByFactorID None (factor_ID example_factor) example_tables =
     Inr [example_session 11 (Some 1) ''aal2'', example_session 12 (Some 1) ''aal2''] \<and>
   (2::nat) \<le> Suc (length [example_session 11 (Some 1) ''aal2'', example_session 12 (Some 1) ''aal2'']) \<and>
   (\<lambda>i. if i = 2 then Some (Fault ''deadlock detected'') else None) (2::nat) = Some (Fault ''deadlock detected'') \<and>
   (\<lambda>i. if i = 2 then Some (Fault ''deadlock detected'') else None) (0::nat) = None \<and>
   (\<lambda>i. if i = 2 then Some (Fault ''deadlock detected'') else None) (1::nat) = None \<and>
   DowngradeSessionsToAAL1 (\<lambda>i. if i = 2 then Some (Fault ''deadlock detected'') else None) example_factor example_tables =
     (Some (Fault ''deadlock detected''),
      \<lparr>sessions = [example_session 11 (Some 1) ''aal2'', example_session 12 (Some 1) ''aal2'',
                  example_session 13 None ''aal1''],
       claims = [example_claim 101 11 5 5 ''password'', example_claim 103 12 7 7 ''totp'',
                 example_claim 104 13 8 8 ''password'']\<rparr>)"
proof -
  let ?fault = "\<lambda>i::nat. if i = 2 then Some (Fault ''deadlock detected'') else None"
  let ?found = "[example_session 11 (Some 1) ''aal2'', example_session 12 (Some 1) ''aal2'']"
  have i: "(2::nat) \<le> Suc (length ?found)" by simp
  have e: "?fault 2 = Some (Fault ''deadlock detected'')" by simp
  have first: "\<forall>j<2. ?fault j = None" by simp
  have "DowngradeSessionsToAAL1 ?fault example_factor example_tables =
     (Some (Fault ''deadlock detected''),
      example_tables\<lparr>claims := filter (\<lambda>c. \<not> (claim_AuthenticationMethod c = FactorType example_factor \<and>
                                            claim_SessionID c \<in> session_ID ` set (take (2 - 1) ?found)))
                                  (claims example_tables)\<rparr>)"
    using downgrade_stops_at_first_failure [where f = example_factor and db = example_tables and i = 2
        and fault = ?fault and e = "Fault ''deadlock detected''" and found = ?found]
      example_found i e first by blast
  then have "DowngradeSessionsToAAL1 ?fault example_factor example_tables =
     (Some (Fault ''deadlock detected''),
      \<lparr>sessions = [example_session 11 (Some 1) ''aal2'', example_session 12 (Some 1) ''aal2'',
                  example_session 13 None ''aal1''],
       claims = [example_claim 101 11 5 5 ''password'', example_claim 103 12 7 7 ''totp'',
                 example_claim 104 13 8 8 ''password'']\<rparr>)"
    by (simp add: example_tables_def example_factor_def example_session_def example_claim_def)
  with example_found i e first show ?thesis by simp
qed

section \<open>Tokens determine digests\<close>






lemma Transaction_success: "Transaction fn st = (None, st') \<Longrightarrow> fn st = (None, st')"
  by (cases "fn st") (auto simp: Transaction_def split: option.splits)

lemma GenerateLink_success:
  assumes "GenerateLink a db = (Inr resp, db')"
  shows "\<exists>body p email user params otp st'.
      getBodyBytes a = Inr body \<and> json_Unmarshal a body = Inr p \<and>
      validateEmail a (params_Email p) = Inr email \<and>
      lookup_user a (fst db) (p\<lparr>params_Email := email\<rparr>) (requestAud a) = Inr (user, params) \<and>
      GenerateOtp a 0 (OtpLength a) = Inr otp \<and>
      link_transaction a (requestAud a) (getRedirectURLOrReferrer a (params_RedirectTo params)) (Now a 0) otp
          (hashed_token (Sum224 a) (params_Email params) otp)
          \<lparr>users = fst db, audit_log = snd db, var_params = params, var_user = user, var_url = []\<rparr> = (None, st') \<and>
      var_user st' = Some (resp_User resp) \<and>
      EmailOtp resp = otp \<and>
      HashedToken resp = hashed_token (Sum224 a) (params_Email params) otp \<and>
      VerificationType resp = params_Type (var_params st') \<and>
      db' = (users st', audit_log st')"
  using assms
  by (auto simp: GenerateLink_def Let_def split: sum.splits prod.splits option.splits
      dest!: Transaction_success)

section \<open>The steps of link generation\<close>

lemma validateEmail_Inr: "validateEmail a email = Inr e \<Longrightarrow> e = ToLower a email \<and> email \<noteq> []"
  by (auto simp: validateEmail_def split: if_splits option.splits)

lemma FindUser_Inr:
  "FindUserByEmailAndAudience fault table email aud = Inr u \<Longrightarrow>
   u \<in> set table \<and> Email u = email \<and> Aud u = aud"
  by (auto simp: FindUserByEmailAndAudience_def find_Some_iff split: option.splits)

lemma lookup_user_fields:
  "lookup_user a table params aud = Inr (user, params') \<Longrightarrow>
   params_Email params' = params_Email params \<and> params_NewEmail params' = params_NewEmail params"
  by (auto simp: lookup_user_def split: sum.splits if_splits)

lemma lookup_user_cases:
  "lookup_user a table params aud = Inr (user, params') \<Longrightarrow>
   (\<exists>u. user = Some u \<and> params' = params \<and>
        FindUserByEmailAndAudience (FindUser_fault a) table (params_Email params) aud = Inr u) \<or>
   (user = None \<and>
    FindUserByEmailAndAudience (FindUser_fault a) table (params_Email params) aud = Inl UserNotFoundError \<and>
    params_Type params' \<noteq> ''email_change_new'' \<and> params_Type params' \<noteq> ''email_change_current'' \<and>
    params_Type params' \<noteq> recoveryVerification \<and> params_Type params' \<noteq> magicLinkVerification)"
  by (auto simp: lookup_user_def IsNotFoundError_def magicLinkVerification_def signupVerification_def
      recoveryVerification_def split: sum.splits if_splits)

lemma lookup_user_type:
  "lookup_user a table params aud = Inr (user, params') \<Longrightarrow>
   params_Type params' = params_Type params \<or>
   (params_Type params = magicLinkVerification \<and> params_Type params' = signupVerification)"
  by (auto simp: lookup_user_def split: sum.splits if_splits)

lemma update_user_result:
  "update_user a u cols msg st = (None, st') \<Longrightarrow>
   var_user st' = Some u \<and> var_params st' = var_params st \<and> audit_log st' = audit_log st \<and>
   users st' = map (\<lambda>r. if user_ID r = user_ID u then fold (write_column u) cols r else r) (users st)"
  by (auto simp: update_user_def UpdateOnly_def errors_Wrap_def split: option.splits)


lemma NewAuditLogEntry_result:
  "NewAuditLogEntry a action st = (None, st') \<Longrightarrow>
   var_user st' = var_user st \<and> var_params st' = var_params st \<and> users st' = users st"
  by (auto simp: NewAuditLogEntry_def split: option.splits)

lemma provision_result:
  "provision a sp st = (None, st') \<Longrightarrow>
   \<exists>u u'. signupNewUser a sp = Inr u \<and> var_user st' = Some u' \<and> user_ID u' = user_ID u \<and>
          var_params st' = var_params st"
  by (auto simp: provision_def split: sum.splits)

lemma link_recovery_found:
  "link_recovery a now h st = (None, st') \<Longrightarrow>
   \<exists>u u'. var_user st = Some u \<and> var_user st' = Some u' \<and> user_ID u' = user_ID u \<and> Email u' = Email u \<and>
          var_params st' = var_params st"
  by (auto simp: link_recovery_def split: option.splits prod.splits
      dest!: update_user_result NewAuditLogEntry_result)

lemma link_email_change_found:
  "link_email_change a otp h st = (None, st') \<Longrightarrow>
   \<exists>u u' newEmail. var_user st = Some u \<and> var_user st' = Some u' \<and> user_ID u' = user_ID u \<and> Email u' = Email u \<and>
      validateEmail a (params_NewEmail (var_params st)) = Inr newEmail \<and> EmailChange u' = newEmail \<and>
      params_Type (var_params st') = params_Type (var_params st)"
  by (auto simp: link_email_change_def Let_def split: sum.splits option.splits if_splits
      dest!: update_user_result)

lemma link_invite_result:
  assumes "link_invite a aud now h st = (None, st')"
  shows "params_Type (var_params st') = params_Type (var_params st) \<and>
   ((\<exists>u u'. var_user st = Some u \<and> var_user st' = Some u' \<and> user_ID u' = user_ID u \<and> Email u' = Email u) \<or>
    (\<exists>sp u u'. var_user st = None \<and> signupNewUser a sp = Inr u \<and> signup_Email sp = params_Email (var_params st) \<and>
        var_user st' = Some u' \<and> user_ID u' = user_ID u))"
proof (cases "var_user st")
  case None
  let ?sp = "\<lparr>signup_Email = params_Email (var_params st), signup_Password = [],
               signup_Data = params_Data (var_params st), signup_Provider = ''email'', signup_Aud = aud\<rparr>"
  from assms None obtain st1 where p: "provision a ?sp st = (None, st1)"
    by (auto simp: link_invite_def split: option.splits prod.splits)
  from provision_result [OF p] obtain u u1 where
    u: "signupNewUser a ?sp = Inr u" "var_user st1 = Some u1" "user_ID u1 = user_ID u"
       "var_params st1 = var_params st" by blast
  from assms None p u(2) obtain st2 where
    l: "NewAuditLogEntry a ''UserInvitedAction'' st1 = (None, st2)" and
    w: "update_user a (u1\<lparr>ConfirmationToken := h, ConfirmationSentAt := Some now, InvitedAt := Some now\<rparr>)
          [confirmation_token, confirmation_sent_at, invited_at]
          ''Database error updating user for invite'' st2 = (None, st')"
    by (auto simp: link_invite_def split: option.splits prod.splits)
  from NewAuditLogEntry_result [OF l] update_user_result [OF w] u
  have "params_Type (var_params st') = params_Type (var_params st)"
    and "var_user st' = Some (u1\<lparr>ConfirmationToken := h, ConfirmationSentAt := Some now, InvitedAt := Some now\<rparr>)"
    by simp_all
  then have ty: "params_Type (var_params st') = params_Type (var_params st)"
    and "\<exists>u'. var_user st' = Some u' \<and> user_ID u' = user_ID u"
    using u(3) by simp_all
  then obtain u' where u': "var_user st' = Some u'" "user_ID u' = user_ID u" by blast
  have "var_user st = None \<and> signupNewUser a ?sp = Inr u \<and>
        signup_Email ?sp = params_Email (var_params st) \<and> var_user st' = Some u' \<and> user_ID u' = user_ID u"
    using None u(1) u' by simp
  then have "\<exists>sp u u'. var_user st = None \<and> signupNewUser a sp = Inr u \<and>
        signup_Email sp = params_Email (var_params st) \<and> var_user st' = Some u' \<and> user_ID u' = user_ID u"
    by (intro exI)
  with ty show ?thesis by blast
next
  case (Some u)
  from assms Some obtain st2 where
    l: "NewAuditLogEntry a ''UserInvitedAction'' st = (None, st2)" and
    w: "update_user a (u\<lparr>ConfirmationToken := h, ConfirmationSentAt := Some now, InvitedAt := Some now\<rparr>)
          [confirmation_token, confirmation_sent_at, invited_at]
          ''Database error updating user for invite'' st2 = (None, st')"
    by (auto simp: link_invite_def split: option.splits prod.splits if_splits)
  from NewAuditLogEntry_result [OF l] update_user_result [OF w] Some
  show ?thesis by simp
qed

lemma link_signup_result:
  assumes "link_signup a aud now h st = (None, st')"
  shows "params_Type (var_params st') = params_Type (var_params st) \<and>
   ((\<exists>u u'. var_user st = Some u \<and> var_user st' = Some u' \<and> user_ID u' = user_ID u \<and> Email u' = Email u) \<or>
    (\<exists>sp u u'. var_user st = None \<and> signupNewUser a sp = Inr u \<and> signup_Email sp = params_Email (var_params st) \<and>
        var_user st' = Some u' \<and> user_ID u' = user_ID u))"
proof (cases "var_user st")
  case None
  let ?sp = "\<lparr>signup_Email = params_Email (var_params st),
               signup_Password = params_Password (var_params st),
               signup_Data = params_Data (var_params st), signup_Provider = ''email'', signup_Aud = aud\<rparr>"
  from assms None obtain st1 where p: "provision a ?sp st = (None, st1)"
    by (auto simp: link_signup_def split: option.splits prod.splits if_splits)
  from provision_result [OF p] obtain u u1 where
    u: "signupNewUser a ?sp = Inr u" "var_user st1 = Some u1" "user_ID u1 = user_ID u"
       "var_params st1 = var_params st" by blast
  from assms None p u(2) have
    w: "update_user a (u1\<lparr>ConfirmationToken := h, ConfirmationSentAt := Some now\<rparr>)
          [confirmation_token, confirmation_sent_at]
          ''Database error updating user for confirmation'' st1 = (None, st')"
    by (auto simp: link_signup_def split: option.splits prod.splits if_splits)
  from update_user_result [OF w] u
  have "params_Type (var_params st') = params_Type (var_params st)"
    and "var_user st' = Some (u1\<lparr>ConfirmationToken := h, ConfirmationSentAt := Some now\<rparr>)"
    by simp_all
  then have ty: "params_Type (var_params st') = params_Type (var_params st)"
    and "\<exists>u'. var_user st' = Some u' \<and> user_ID u' = user_ID u"
    using u(3) by simp_all
  then obtain u' where u': "var_user st' = Some u'" "user_ID u' = user_ID u" by blast
  have "var_user st = None \<and> signupNewUser a ?sp = Inr u \<and>
        signup_Email ?sp = params_Email (var_params st) \<and> var_user st' = Some u' \<and> user_ID u' = user_ID u"
    using None u(1) u' by simp
  then have "\<exists>sp u u'. var_user st = None \<and> signupNewUser a sp = Inr u \<and>
        signup_Email sp = params_Email (var_params st) \<and> var_user st' = Some u' \<and> user_ID u' = user_ID u"
    by (intro exI)
  with ty show ?thesis by blast
next
  case (Some u)
  from assms Some obtain merged where
    w: "update_user a (u\<lparr>UserMetaData := merged, ConfirmationToken := h, ConfirmationSentAt := Some now\<rparr>)
          [confirmation_token, confirmation_sent_at]
          ''Database error updating user for confirmation''
          (st\<lparr>users := map (\<lambda>r. if user_ID r = user_ID u then r\<lparr>UserMetaData := merged\<rparr> else r) (users st),
              var_user := Some (u\<lparr>UserMetaData := merged\<rparr>)\<rparr>) = (None, st')"
    by (auto simp: link_signup_def split: option.splits prod.splits if_splits sum.splits)
  from update_user_result [OF w] Some
  show ?thesis by simp
qed

lemma link_transaction_result:
  assumes "link_transaction a aud referrer now otp h st = (None, st')"
  shows "params_Type (var_params st') = params_Type (var_params st) \<and>
   ((\<exists>u u'. var_user st = Some u \<and> var_user st' = Some u' \<and> user_ID u' = user_ID u \<and> Email u' = Email u) \<or>
    (\<exists>sp u u'. var_user st = None \<and> signupNewUser a sp = Inr u \<and> signup_Email sp = params_Email (var_params st) \<and>
        var_user st' = Some u' \<and> user_ID u' = user_ID u))"
proof -
  let ?kind = "if params_Type (var_params st) = magicLinkVerification \<or> params_Type (var_params st) = recoveryVerification
            then link_recovery a now h st
            else if params_Type (var_params st) = inviteVerification
            then link_invite a aud now h st
            else if params_Type (var_params st) = signupVerification
            then link_signup a aud now h st
            else if params_Type (var_params st) = ''email_change_current'' \<or> params_Type (var_params st) = ''email_change_new''
            then link_email_change a otp h st
            else (Some (HTTPError badRequestError ''Invalid email action link type requested: %v'' None), st)"
  from assms obtain st1 where k: "?kind = (None, st1)"
    and tail: "var_user st' = var_user st1" "var_params st' = var_params st1"
    unfolding link_transaction_def
    by (auto split: option.splits prod.splits sum.splits)
  have "params_Type (var_params st1) = params_Type (var_params st) \<and>
   ((\<exists>u u'. var_user st = Some u \<and> var_user st1 = Some u' \<and> user_ID u' = user_ID u \<and> Email u' = Email u) \<or>
    (\<exists>sp u u'. var_user st = None \<and> signupNewUser a sp = Inr u \<and> signup_Email sp = params_Email (var_params st) \<and>
        var_user st1 = Some u' \<and> user_ID u' = user_ID u))"
    using k link_recovery_found [of a now h st st1] link_invite_result [of a aud now h st st1]
      link_signup_result [of a aud now h st st1] link_email_change_found [of a otp h st st1]
    by (auto split: if_splits)
  with tail show ?thesis by simp
qed

lemma link_transaction_email_change:
  assumes "link_transaction a aud referrer now otp h st = (None, st')"
    and "params_Type (var_params st) = ''email_change_new'' \<or> params_Type (var_params st) = ''email_change_current''"
  shows "\<exists>st1. link_email_change a otp h st = (None, st1) \<and> var_user st' = var_user st1 \<and>
           users st' = users st1 \<and> var_params st' = var_params st1"
  using assms unfolding link_transaction_def
  by (auto simp: magicLinkVerification_def recoveryVerification_def inviteVerification_def
      signupVerification_def split: option.splits prod.splits sum.splits)

lemma example_lower_ann: "example_ToLower ''Ann@Example.org'' = ''ann@example.org''"
  by (simp add: example_ToLower_def)





section \<open>The token format and its use by the flows\<close>

lemma example_token_value:
  "hashed_token example_Sum224 ''ann@example.org'' ''123456'' =
     ''616e6e406578616d706c652e6f726731323334353600000000000000''"
  by (simp add: hashed_token_def Rep_example_Sum224 Sprintf_x_def hex_byte_def hex_digit_def)
    (simp add: numeral_eq_Suc)

lemma sendConfirmation_token:
  "sendConfirmation c d r n w = (None, w') \<Longrightarrow>
   \<exists>otp. GenerateOtp c (draws w) n = Inr otp \<and>
         ConfirmationToken (usr w') = hashed_token (Sum224 c) (GetEmail (usr w)) otp"
  by (auto simp: sendConfirmation_def Let_def split: if_splits sum.splits option.splits prod.splits)

lemma sendInvite_token:
  "sendInvite c r n w = (None, w') \<Longrightarrow>
   \<exists>otp. GenerateOtp c (draws w) n = Inr otp \<and>
         ConfirmationToken (usr w') = hashed_token (Sum224 c) (GetEmail (usr w)) otp"
  by (auto simp: sendInvite_def Let_def split: if_splits sum.splits option.splits prod.splits)

lemma sendPasswordRecovery_token:
  "sendPasswordRecovery c d r n w = (None, w') \<Longrightarrow>
   \<exists>otp. GenerateOtp c (draws w) n = Inr otp \<and>
         RecoveryToken (usr w') = hashed_token (Sum224 c) (GetEmail (usr w)) otp"
  by (auto simp: sendPasswordRecovery_def Let_def split: if_splits sum.splits option.splits prod.splits)

lemma sendMagicLink_token:
  "sendMagicLink c d r n w = (None, w') \<Longrightarrow>
   \<exists>otp. GenerateOtp c (draws w) n = Inr otp \<and>
         RecoveryToken (usr w') = hashed_token (Sum224 c) (GetEmail (usr w)) otp"
  by (auto simp: sendMagicLink_def Let_def split: if_splits sum.splits option.splits prod.splits)

lemma sendReauthenticationOtp_token:
  "sendReauthenticationOtp c d n w = (None, w') \<Longrightarrow>
   \<exists>otp. GenerateOtp c (draws w) n = Inr otp \<and>
         ReauthenticationToken (usr w') = hashed_token (Sum224 c) (GetEmail (usr w)) otp"
  by (auto simp: sendReauthenticationOtp_def Let_def split: if_splits sum.splits option.splits prod.splits)

lemma sendEmailChange_token:
  "sendEmailChange c secure email r n w = (None, w') \<Longrightarrow>
   \<exists>otpNew. GenerateOtp c (draws w) n = Inr otpNew \<and>
         EmailChangeTokenNew (usr w') = hashed_token (Sum224 c) (EmailChange (usr w)) otpNew"
  by (auto simp: sendEmailChange_def Let_def split: if_splits sum.splits option.splits prod.splits)

lemma GenerateLink_token:
  "GenerateLink a db = (Inr resp, db') \<Longrightarrow>
   \<exists>identifier. HashedToken resp = hashed_token (Sum224 a) identifier (EmailOtp resp)"
  by (drule GenerateLink_success) auto

text \<open>
  C8: the token is the rendering, in lowercase hexadecimal digits, of the 28-byte (224-bit)
  digest of the identifier followed by the one-time code: 56 characters out of
  \<open>0123456789abcdef\<close>, the same for the same identifier and code. Each flow that succeeds
  has set its token to this value for a code it drew: the confirmation, invite, recovery,
  magic-link and reauthentication flows over the user's email, the email-change flow over
  the pending new email, and \<open>GenerateLink\<close> returns such a value for the code it returns.
\<close>

theorem token_derivation:
  "length (hashed_token S identifier otp) = 56 \<and>
   set (hashed_token S identifier otp) \<subseteq> set ''0123456789abcdef'' \<and>
   hashed_token S identifier otp = Sprintf_x (Rep_digest224 (S (identifier @ otp))) \<and>
   8 * length (Rep_digest224 (S (identifier @ otp))) = 224 \<and>
   (identifier = identifier' \<and> otp = otp' \<longrightarrow> hashed_token S identifier otp = hashed_token S identifier' otp') \<and>
   (sendConfirmation c d r n w = (None, w') \<longrightarrow>
      (\<exists>otp. GenerateOtp c (draws w) n = Inr otp \<and>
             ConfirmationToken (usr w') = hashed_token (Sum224 c) (GetEmail (usr w)) otp)) \<and>
   (sendInvite c r n w = (None, w') \<longrightarrow>
      (\<exists>otp. GenerateOtp c (draws w) n = Inr otp \<and>
             ConfirmationToken (usr w') = hashed_token (Sum224 c) (GetEmail (usr w)) otp)) \<and>
   (sendPasswordRecovery c d r n w = (None, w') \<longrightarrow>
      (\<exists>otp. GenerateOtp c (draws w) n = Inr otp \<and>
             RecoveryToken (usr w') = hashed_token (Sum224 c) (GetEmail (usr w)) otp)) \<and>
   (sendMagicLink c d r n w = (None, w') \<longrightarrow>
      (\<exists>otp. GenerateOtp c (draws w) n = Inr otp \<and>
             RecoveryToken (usr w') = hashed_token (Sum224 c) (GetEmail (usr w)) otp)) \<and>
   (sendReauthenticationOtp c d n w = (None, w') \<longrightarrow>
      (\<exists>otp. GenerateOtp c (draws w) n = Inr otp \<and>
             ReauthenticationToken (usr w') = hashed_token (Sum224 c) (GetEmail (usr w)) otp)) \<and>
   (sendEmailChange c secure email r n w = (None, w') \<longrightarrow>
      (\<exists>otpNew. GenerateOtp c (draws w) n = Inr otpNew \<and>
             EmailChangeTokenNew (usr w') = hashed_token (Sum224 c) (EmailChange (usr w)) otpNew)) \<and>
   (GenerateLink a db = (Inr resp, db') \<longrightarrow>
      (\<exists>identifier. HashedToken resp = hashed_token (Sum224 a) identifier (EmailOtp resp)))"
proof -
  have fmt: "length (hashed_token S identifier otp) = 56"
    "set (hashed_token S identifier otp) \<subseteq> set ''0123456789abcdef''"
    "hashed_token S identifier otp = Sprintf_x (Rep_digest224 (S (identifier @ otp)))"
    "8 * length (Rep_digest224 (S (identifier @ otp))) = 224"
    using set_Sprintf_x [of "Rep_digest224 (S (identifier @ otp))"]
    by (simp_all add: length_Sprintf_x length_Rep_digest224 hashed_token_def del: set_simps)
  show ?thesis
    using fmt sendConfirmation_token [of c d r n w w'] sendInvite_token [of c r n w w']
      sendPasswordRecovery_token [of c d r n w w'] sendMagicLink_token [of c d r n w w']
      sendReauthenticationOtp_token [of c d n w w'] sendEmailChange_token [of c secure email r n w w']
      GenerateLink_token [of a db resp db']
    by blast
qed

lemma example_recovery_run:
  "sendPasswordRecovery (example_collab 2000 (\<lambda>m. None)) 60 [] 6 example_world =
     (None,
      \<lparr>rows = [example_user\<lparr>RecoveryToken := hashed_token example_Sum224 ''ann@example.org'' ''123456'',
                            RecoverySentAt := Some 2000\<rparr>],
       usr = example_user\<lparr>RecoveryToken := hashed_token example_Sum224 ''ann@example.org'' ''123456'',
                          RecoverySentAt := Some 2000\<rparr>,
       outbox = [RecoveryMail (example_user\<lparr>RecoveryToken := hashed_token example_Sum224 ''ann@example.org'' ''123456''\<rparr>)
                   ''123456'' []],
       draws = 1\<rparr>)"
  by (simp add: sendPasswordRecovery_def example_collab_def example_world_def example_user_def
      frequency_limit_reached_def Before_def Add_def Let_def UpdateOnly_def errors_Wrap_def GetEmail_def)

theorem token_derivation_witness:
  "hashed_token example_Sum224 ''ann@example.org'' ''123456'' =
     ''616e6e406578616d706c652e6f726731323334353600000000000000'' \<and>
   length ''616e6e406578616d706c652e6f726731323334353600000000000000'' = 56 \<and>
   sendPasswordRecovery (example_collab 2000 (\<lambda>m. None)) 60 [] 6 example_world =
     (None,
      \<lparr>rows = [example_user\<lparr>RecoveryToken := ''616e6e406578616d706c652e6f726731323334353600000000000000'',
                            RecoverySentAt := Some 2000\<rparr>],
       usr = example_user\<lparr>RecoveryToken := ''616e6e406578616d706c652e6f726731323334353600000000000000'',
                          RecoverySentAt := Some 2000\<rparr>,
       outbox = [RecoveryMail (example_user\<lparr>RecoveryToken := ''616e6e406578616d706c652e6f726731323334353600000000000000''\<rparr>)
                   ''123456'' []],
       draws = 1\<rparr>) \<and>
   GenerateOtp (example_collab 2000 (\<lambda>m. None)) (draws example_world) 6 = Inr ''123456''"
proof -
  let ?c = "example_collab 2000 (\<lambda>m. None)"
  have otp: "GenerateOtp ?c (draws example_world) 6 = Inr ''123456''" by (simp add: example_collab_def)
  have len: "length (hashed_token example_Sum224 ''ann@example.org'' ''123456'') = 56"
    using token_derivation [of example_Sum224 "''ann@example.org''" "''123456''"] by blast
  from len example_token_value example_recovery_run otp show ?thesis
    by simp
qed

section \<open>Link generation for a new email\<close>






section \<open>Link generation works on the lowercased email\<close>

text \<open>
  C10: \<open>validateEmail\<close> fails with a validation error on the empty string and otherwise,
  when the mailer accepts the address, returns it in lowercase. A successful
  \<open>GenerateLink\<close> has derived the returned token from the lowercased email of the request,
  has looked the user up under the lowercased email (the user returned is the one found
  there, or one signed up with the lowercased email when none was found), and for the two
  email-change kinds has stored the lowercased new email.
\<close>

theorem link_generation_uses_lowercased_email:
  "validateEmail a [] = Inl (HTTPError unprocessableEntityError ''An email address is required'' None) \<and>
   (validateEmail a email = Inr e \<longrightarrow> e = ToLower a email) \<and>
   (email \<noteq> [] \<and> ValidateEmail a email = None \<longrightarrow> validateEmail a email = Inr (ToLower a email)) \<and>
   (GenerateLink a db = (Inr resp, db') \<and> getBodyBytes a = Inr body \<and> json_Unmarshal a body = Inr p \<longrightarrow>
      HashedToken resp = hashed_token (Sum224 a) (ToLower a (params_Email p)) (EmailOtp resp) \<and>
      ((\<exists>u. FindUserByEmailAndAudience (FindUser_fault a) (fst db) (ToLower a (params_Email p)) (requestAud a) = Inr u \<and>
            user_ID (resp_User resp) = user_ID u \<and> Email (resp_User resp) = ToLower a (params_Email p)) \<or>
       (FindUserByEmailAndAudience (FindUser_fault a) (fst db) (ToLower a (params_Email p)) (requestAud a)
          = Inl UserNotFoundError \<and>
        (\<exists>sp u. signupNewUser a sp = Inr u \<and> signup_Email sp = ToLower a (params_Email p) \<and>
                user_ID (resp_User resp) = user_ID u))) \<and>
      (params_Type p = ''email_change_new'' \<or> params_Type p = ''email_change_current'' \<longrightarrow>
         EmailChange (resp_User resp) = ToLower a (params_NewEmail p)))"
proof (intro conjI impI)
  show "validateEmail a [] = Inl (HTTPError unprocessableEntityError ''An email address is required'' None)"
    by (simp add: validateEmail_def)
  show "e = ToLower a email" if "validateEmail a email = Inr e"
    using validateEmail_Inr [OF that] by simp
  show "validateEmail a email = Inr (ToLower a email)" if "email \<noteq> [] \<and> ValidateEmail a email = None"
    using that by (simp add: validateEmail_def)
next
  assume asm: "GenerateLink a db = (Inr resp, db') \<and> getBodyBytes a = Inr body \<and> json_Unmarshal a body = Inr p"
  then have run: "GenerateLink a db = (Inr resp, db')" by simp
  from GenerateLink_success [OF run] asm obtain email' user params otp st' where
    v: "validateEmail a (params_Email p) = Inr email'" and
    l: "lookup_user a (fst db) (p\<lparr>params_Email := email'\<rparr>) (requestAud a) = Inr (user, params)" and
    t: "link_transaction a (requestAud a) (getRedirectURLOrReferrer a (params_RedirectTo params)) (Now a 0) otp
          (hashed_token (Sum224 a) (params_Email params) otp)
          \<lparr>users = fst db, audit_log = snd db, var_params = params, var_user = user, var_url = []\<rparr> = (None, st')" and
    r: "var_user st' = Some (resp_User resp)" "EmailOtp resp = otp"
       "HashedToken resp = hashed_token (Sum224 a) (params_Email params) otp"
    by auto
  from validateEmail_Inr [OF v] have email': "email' = ToLower a (params_Email p)" by simp
  from lookup_user_fields [OF l] have f: "params_Email params = email'" "params_NewEmail params = params_NewEmail p"
    by simp_all
  from r(3) f(1) email' r(2)
  show "HashedToken resp = hashed_token (Sum224 a) (ToLower a (params_Email p)) (EmailOtp resp)" by simp
  let ?st = "\<lparr>users = fst db, audit_log = snd db, var_params = params, var_user = user, var_url = []\<rparr>"
  from link_transaction_result [OF t] r(1) have
    tr: "(\<exists>u. user = Some u \<and> user_ID (resp_User resp) = user_ID u \<and> Email (resp_User resp) = Email u) \<or>
         (\<exists>sp u. user = None \<and> signupNewUser a sp = Inr u \<and> signup_Email sp = params_Email params \<and>
                 user_ID (resp_User resp) = user_ID u)"
    by auto
  from lookup_user_cases [OF l] have
    lc: "(\<exists>u. user = Some u \<and>
             FindUserByEmailAndAudience (FindUser_fault a) (fst db) email' (requestAud a) = Inr u) \<or>
         (user = None \<and>
             FindUserByEmailAndAudience (FindUser_fault a) (fst db) email' (requestAud a) = Inl UserNotFoundError)"
    by auto
  show "(\<exists>u. FindUserByEmailAndAudience (FindUser_fault a) (fst db) (ToLower a (params_Email p)) (requestAud a) = Inr u \<and>
            user_ID (resp_User resp) = user_ID u \<and> Email (resp_User resp) = ToLower a (params_Email p)) \<or>
       (FindUserByEmailAndAudience (FindUser_fault a) (fst db) (ToLower a (params_Email p)) (requestAud a)
          = Inl UserNotFoundError \<and>
        (\<exists>sp u. signupNewUser a sp = Inr u \<and> signup_Email sp = ToLower a (params_Email p) \<and>
                user_ID (resp_User resp) = user_ID u))"
  proof (cases user)
    case (Some u)
    with lc have fu: "FindUserByEmailAndAudience (FindUser_fault a) (fst db) email' (requestAud a) = Inr u" by simp
    from FindUser_Inr [OF fu] have "Email u = email'" by simp
    with Some tr fu email' show ?thesis by auto
  next
    case None
    with lc have "FindUserByEmailAndAudience (FindUser_fault a) (fst db) email' (requestAud a) = Inl UserNotFoundError"
      by simp
    moreover from None tr f(1) have "\<exists>sp u. signupNewUser a sp = Inr u \<and> signup_Email sp = email' \<and>
                user_ID (resp_User resp) = user_ID u" by auto
    ultimately show ?thesis using email' by simp
  qed
  show "EmailChange (resp_User resp) = ToLower a (params_NewEmail p)"
    if kind: "params_Type p = ''email_change_new'' \<or> params_Type p = ''email_change_current''"
  proof -
    from lookup_user_type [OF l] kind
    have kind': "params_Type params = ''email_change_new'' \<or> params_Type params = ''email_change_current''"
      by (auto simp: magicLinkVerification_def)
    from link_transaction_email_change [OF t] kind' obtain st1 where
      c: "link_email_change a otp (hashed_token (Sum224 a) (params_Email params) otp) ?st = (None, st1)" and
      same: "var_user st' = var_user st1"
      by auto
    from link_email_change_found [OF c] obtain u' newEmail where
      "var_user st1 = Some u'" "validateEmail a (params_NewEmail params) = Inr newEmail" "EmailChange u' = newEmail"
      by auto
    with validateEmail_Inr [of a "params_NewEmail params" newEmail] same r(1) f(2)
    show ?thesis by simp
  qed
qed

theorem link_generation_uses_lowercased_email_witness:
  "validateEmail (example_api ''recovery'' ''Ann@Example.org'' []) ''Ann@Example.org'' = Inr ''ann@example.org'' \<and>
   getBodyBytes (example_api ''recovery'' ''Ann@Example.org'' []) = Inr ''{}'' \<and>
   GenerateLink (example_api ''recovery'' ''Ann@Example.org'' []) ([example_user], []) =
     (Inr \<lparr>resp_User = example_user\<lparr>RecoveryToken := hashed_token example_Sum224 ''ann@example.org'' ''123456'',
                                       RecoverySentAt := Some 2000\<rparr>,
            ActionLink = ''https://example.org/verify'', EmailOtp = ''123456'',
            HashedToken = hashed_token example_Sum224 ''ann@example.org'' ''123456'',
            VerificationType = ''recovery'', resp_RedirectTo = ''https://example.org''\<rparr>,
      ([example_user\<lparr>RecoveryToken := hashed_token example_Sum224 ''ann@example.org'' ''123456'',
                       RecoverySentAt := Some 2000\<rparr>], [''UserRecoveryRequestedAction''])) \<and>
   FindUserByEmailAndAudience None [example_user] ''ann@example.org'' ''authenticated'' = Inr example_user \<and>
   FindUserByEmailAndAudience None [example_user] ''Ann@Example.org'' ''authenticated'' = Inl UserNotFoundError"
proof -
  let ?a = "example_api ''recovery'' ''Ann@Example.org'' []"
  have b: "getBodyBytes ?a = Inr ''{}''" by (simp add: example_api_def)
  have p: "json_Unmarshal ?a ''{}'' = Inr \<lparr>params_Type = ''recovery'', params_Email = ''Ann@Example.org'',
      params_NewEmail = [], params_Password = [], params_Data = [], params_RedirectTo = []\<rparr>"
    by (simp add: example_api_def)
  have v: "validateEmail ?a ''Ann@Example.org'' = Inr ''ann@example.org''"
    by (simp add: validateEmail_def example_api_def example_lower_ann)
  have run: "GenerateLink ?a ([example_user], []) =
     (Inr \<lparr>resp_User = example_user\<lparr>RecoveryToken := hashed_token example_Sum224 ''ann@example.org'' ''123456'',
                                       RecoverySentAt := Some 2000\<rparr>,
            ActionLink = ''https://example.org/verify'', EmailOtp = ''123456'',
            HashedToken = hashed_token example_Sum224 ''ann@example.org'' ''123456'',
            VerificationType = ''recovery'', resp_RedirectTo = ''https://example.org''\<rparr>,
      ([example_user\<lparr>RecoveryToken := hashed_token example_Sum224 ''ann@example.org'' ''123456'',
                       RecoverySentAt := Some 2000\<rparr>], [''UserRecoveryRequestedAction'']))"
    by (simp add: GenerateLink_def example_api_def validateEmail_def example_lower_ann
      lookup_user_def FindUserByEmailAndAudience_def example_user_def Transaction_def
      link_transaction_def link_recovery_def NewAuditLogEntry_def update_user_def UpdateOnly_def errors_Wrap_def
      magicLinkVerification_def recoveryVerification_def inviteVerification_def signupVerification_def
      Let_def)
  have f: "FindUserByEmailAndAudience None [example_user] ''ann@example.org'' ''authenticated'' = Inr example_user"
    "FindUserByEmailAndAudience None [example_user] ''Ann@Example.org'' ''authenticated'' = Inl UserNotFoundError"
    by (simp_all add: FindUserByEmailAndAudience_def example_user_def)
  from link_generation_uses_lowercased_email [of ?a "''Ann@Example.org''" "''ann@example.org''"
      "([example_user], [])" _ _ "''{}''"] v b run f
  show ?thesis by simp
qed

end
